theory Spec2Isabelle
  imports Complex_Main
begin

section \<open>Numbers, identifiers and errors\<close>

text \<open>
  The backend computes with JavaScript Numbers. Money amounts are modelled as exact
  rationals, counts (stock, quantity) as integers, dates as integer milliseconds.
  \<open>Math.round(x)\<close> rounds half up, towards plus infinity; the controllers round money
  with \<open>Math.round(x * 100) / 100\<close>.
\<close>

type_synonym oid = string
type_synonym date = int

definition Math_round :: "rat \<Rightarrow> int" where
  "Math_round x = \<lfloor>x + 1 / 2\<rfloor>"

definition round2 :: "rat \<Rightarrow> rat" where
  "round2 x = of_int (Math_round (x * 100)) / 100"

text \<open>
  \<open>throw new AppError(status, message)\<close> is the value \<open>AppError status message\<close>; reading a
  property of \<open>null\<close> throws a \<open>TypeError\<close>; Mongoose refuses a document whose required
  Number is not a number with a \<open>ValidationError\<close>. A handler returns its error or its
  response together with the database as it stands when the handler stops. Numbers
  interpolated into a message are left out of it.
\<close>

datatype error = AppError nat string | TypeError string | ValidationError string

text \<open>A value is truthy in \<open>if (s)\<close> when it is a non-empty string.\<close>

definition truthy :: "string option \<Rightarrow> bool" where
  "truthy s = (case s of None \<Rightarrow> False | Some v \<Rightarrow> v \<noteq> [])"

text \<open>\<open>String.prototype.toUpperCase\<close> on ASCII text.\<close>

definition upperChar :: "char \<Rightarrow> char" where
  "upperChar c =
     (let n = (of_char c :: nat) in if 97 \<le> n \<and> n \<le> 122 then char_of (n - 32) else c)"

definition toUpperCase :: "string \<Rightarrow> string" where
  "toUpperCase s = map upperChar s"

section \<open>Product model (models/Product.js)\<close>

record variant =
  colorName :: string
  size_v :: string
  stock :: int

record logistics =
  shippingCost :: rat
  taxPercentage :: rat

text \<open>\<open>images\<close> keeps the \<open>url\<close> of each image; the store is keyed by the product's \<open>_id\<close>.\<close>

record product =
  name :: string
  images :: "string list"
  price :: rat
  stock :: int
  discountPercentage :: rat
  discountStartDate :: "date option"
  discountEndDate :: "date option"
  wholesalePrice :: rat
  retail :: logistics
  wholesale :: logistics
  variants :: "variant list"

text \<open>The virtual \<open>isDiscountActive\<close>; \<open>now\<close> is the value of \<open>new Date()\<close>.\<close>

definition isDiscountActive :: "product \<Rightarrow> date \<Rightarrow> bool" where
  "isDiscountActive p now =
     (if product.discountPercentage p \<le> 0 then False
      else if (case discountStartDate p of None \<Rightarrow> False | Some s \<Rightarrow> now < s) then False
      else if (case discountEndDate p of None \<Rightarrow> False | Some e \<Rightarrow> now > e) then False
      else True)"

text \<open>The virtual \<open>finalPrice\<close>.\<close>

definition finalPrice :: "product \<Rightarrow> date \<Rightarrow> rat" where
  "finalPrice p now =
     (if isDiscountActive p now
      then of_int (Math_round (product.price p * (1 - product.discountPercentage p / 100) * 100)) / 100
      else product.price p)"

definition getCurrentPrice :: "product \<Rightarrow> string \<Rightarrow> date \<Rightarrow> rat" where
  "getCurrentPrice p userRole now =
     (if userRole = ''reseller''
      then (if wholesalePrice p > 0 then wholesalePrice p else product.price p)
      else finalPrice p now)"

definition getShippingCost :: "product \<Rightarrow> string \<Rightarrow> rat" where
  "getShippingCost p userRole =
     (if userRole = ''reseller'' then logistics.shippingCost (wholesale p) else logistics.shippingCost (retail p))"

section \<open>Cart model (models/Cart.js) and cart controller\<close>

text \<open>\<open>lineId\<close> is the \<open>_id\<close> of the line's subdocument; the cart's \<open>user\<close> is its key in the store.\<close>

record cartItem =
  lineId :: oid
  product :: oid
  quantity :: int
  price :: rat
  taxAmount :: rat
  shippingAmount :: rat
  selectedSize :: "string option"
  selectedColor :: "string option"

record cart =
  items :: "cartItem list"
  subtotal :: rat
  totalShipping :: rat
  totalTax :: rat
  totalAmount :: rat
  totalItems :: int

text \<open>\<open>Cart.create({ user, items: [] })\<close> with the schema's defaults.\<close>

definition emptyCart :: cart where
  "emptyCart = \<lparr>items = [], subtotal = 0, totalShipping = 0, totalTax = 0, totalAmount = 0,
     totalItems = 0\<rparr>"

text \<open>The unit price the cart controller resolves (in \<open>recalculateCart\<close>, \<open>addToCart\<close>, \<open>mergeCart\<close>).\<close>

definition cartUnitPrice :: "product \<Rightarrow> string \<Rightarrow> date \<Rightarrow> rat" where
  "cartUnitPrice p userRole now =
     (if userRole = ''reseller''
      then (if wholesalePrice p > 0 then wholesalePrice p else product.price p)
      else getCurrentPrice p ''user'' now)"

text \<open>\<open>(logisticsSettings.shippingCost || 0) * qty\<close>, before rounding.\<close>

definition cartItemShipping :: "product \<Rightarrow> string \<Rightarrow> int \<Rightarrow> rat" where
  "cartItemShipping p userRole qty =
     (if userRole = ''reseller'' then logistics.shippingCost (wholesale p) else logistics.shippingCost (retail p))
       * of_int qty"

text \<open>\<open>cart.populate\<close>, then the filter that drops lines whose product is gone.\<close>

definition populate :: "(oid \<rightharpoonup> product) \<Rightarrow> cartItem list \<Rightarrow> (cartItem \<times> product option) list" where
  "populate ps its = map (\<lambda>item. (item, ps (cartItem.product item))) its"

fun liveItems :: "(cartItem \<times> product option) list \<Rightarrow> (cartItem \<times> product) list" where
  "liveItems [] = []"
| "liveItems ((item, None) # rest) = liveItems rest"
| "liveItems ((item, Some p) # rest) = (item, p) # liveItems rest"

text \<open>The loop of \<open>recalculateCart\<close>; the accumulator holds \<open>subtotal\<close>, \<open>totalShipping\<close> and
  \<open>totalItems\<close>.\<close>

fun recalcLoop :: "string \<Rightarrow> date \<Rightarrow> (cartItem \<times> product) list \<Rightarrow> rat \<times> rat \<times> int
    \<Rightarrow> cartItem list \<times> rat \<times> rat \<times> int" where
  "recalcLoop userRole now [] acc = ([], acc)"
| "recalcLoop userRole now ((item, p) # rest) (accSubtotal, accShipping, accItems) =
     (let qty = cartItem.quantity item;
          unitPrice = cartUnitPrice p userRole now;
          lineTotal = unitPrice * of_int qty;
          itemShipping = cartItemShipping p userRole qty;
          item' = item\<lparr>cartItem.price := unitPrice, shippingAmount := round2 itemShipping,
                    taxAmount := 0\<rparr>;
          (rest', acc') = recalcLoop userRole now rest
                    (accSubtotal + lineTotal, accShipping + itemShipping, accItems + qty)
      in (item' # rest', acc'))"

definition recalculateCart :: "string \<Rightarrow> date \<Rightarrow> (oid \<rightharpoonup> product) \<Rightarrow> cart \<Rightarrow> cart" where
  "recalculateCart userRole now ps c =
     (let (items', subtotal, totalShipping, totalItems) =
            recalcLoop userRole now (liveItems (populate ps (cart.items c))) (0, 0, 0)
      in c\<lparr>cart.items := items',
           cart.subtotal := round2 subtotal,
           cart.totalShipping := round2 totalShipping,
           totalTax := 0,
           totalItems := totalItems,
           cart.totalAmount := round2 (round2 subtotal + round2 totalShipping)\<rparr>)"



text \<open>\<open>Array.prototype.findIndex\<close>: \<open>None\<close> stands for \<open>-1\<close>.\<close>

fun findIndex :: "('a \<Rightarrow> bool) \<Rightarrow> 'a list \<Rightarrow> nat option" where
  "findIndex P [] = None"
| "findIndex P (x # xs) =
     (if P x then Some 0 else (case findIndex P xs of None \<Rightarrow> None | Some i \<Rightarrow> Some (Suc i)))"

text \<open>\<open>x || d\<close> on an optional string.\<close>

definition orDefault :: "string option \<Rightarrow> string \<Rightarrow> string option" where
  "orDefault s d = (if truthy s then s else Some d)"

section \<open>Coupon model (models/Coupon.js)\<close>

text \<open>
  The first nine fields are the paths of \<open>couponSchema\<close>. The last five are paths that
  \<open>createOrder\<close> queries and reads but the schema does not declare; the schema is strict,
  so a coupon written through the model (\<open>createCoupon\<close>) has none of them: \<open>None\<close> is
  \<open>undefined\<close>.
\<close>

record coupon =
  couponId :: oid
  code :: string
  discountPercentage :: rat
  scope :: string
  applicableProducts :: "oid list"
  minOrderValue :: rat
  expirationDate :: date
  isActive :: bool
  usedCount :: int
  startDate :: "date option"
  endDate :: "date option"
  discountType :: "string option"
  discountValue :: "rat option"
  maxDiscount :: "rat option"

definition schemaCoupon :: "coupon \<Rightarrow> bool" where
  "schemaCoupon c = (startDate c = None \<and> endDate c = None \<and> discountType c = None
     \<and> discountValue c = None \<and> maxDiscount c = None)"

definition isValid :: "coupon \<Rightarrow> date \<Rightarrow> bool" where
  "isValid c now = (coupon.isActive c \<and> expirationDate c > now)"

section \<open>Order and payment models (models/Order.js, models/Payment.js)\<close>

text \<open>
  An item of a request body, \<open>{ product, quantity, selectedSize, selectedColor }\<close>: the body
  of \<open>addToCart\<close>, an entry of \<open>guestCartItems\<close> and an entry of \<open>createOrder\<close>'s \<open>items\<close>.
\<close>

record reqItem =
  product :: oid
  quantity :: int
  selectedSize :: "string option"
  selectedColor :: "string option"

record shippingAddr =
  name :: string
  phone :: string
  address :: string
  city :: string
  state :: string
  pincode :: string

text \<open>
  \<open>image_o\<close> is the item's \<open>image\<close>, \<open>note_h\<close> a history entry's \<open>note\<close> and \<open>size_v\<close> a variant's
  \<open>size\<close> (the plain names are taken in Isabelle).
  The order schema's item has no \<open>taxAmount\<close> or \<open>shippingAmount\<close> path, so the two
  properties \<open>createOrder\<close> pushes with each line are not part of the stored order.
\<close>

record orderItem =
  product :: oid
  name :: string
  image_o :: string
  quantity :: int
  price :: rat
  selectedSize :: "string option"
  selectedColor :: "string option"

record couponDetails =
  code :: string
  discountAmount :: "rat option"
  percentage :: "rat option"

record paymentDetails =
  razorpayOrderId :: string
  razorpayPaymentId :: string
  razorpaySignature :: string
  transactionId :: string
  paymentDate :: date

record statusEntry =
  status :: string
  timestamp :: date
  note_h :: string

record emailNotifications =
  confirmationSent :: bool
  shippedSent :: bool
  deliveredSent :: bool

record order =
  user :: oid
  customerEmail :: string
  customerPhone :: string
  orderNumber :: string
  items :: "orderItem list"
  shippingAddress :: shippingAddr
  paymentMethod :: string
  paymentStatus :: string
  paymentDetails :: "paymentDetails option"
  subtotal :: rat
  couponDiscount :: rat
  couponDetails :: "couponDetails option"
  shippingCost :: rat
  tax :: rat
  totalAmount :: rat
  status :: string
  statusHistory :: "statusEntry list"
  emailNotifications :: emailNotifications

record razorpayDetails =
  orderId :: string
  paymentId :: string
  signature :: string

record payment =
  paymentDocId :: oid
  order :: oid
  user :: oid
  amount :: rat
  paymentMethod :: string
  paymentStatus :: string
  razorpayDetails :: razorpayDetails
  transactionId :: "string option"
  failureReason :: "string option"

text \<open>One call of the mail service: the template, the order and whether the transport delivered.\<close>

record mail =
  template :: string
  mailOrder :: oid
  delivered :: bool

text \<open>The authenticated caller, \<open>req.user\<close>.\<close>

record reqUser =
  userId :: oid
  email :: string
  role :: string

section \<open>The database\<close>

record db =
  products :: "oid \<rightharpoonup> product"
  carts :: "oid \<rightharpoonup> cart"
  coupons :: "coupon list"
  orders :: "oid \<rightharpoonup> order"
  payments :: "payment list"
  outbox :: "mail list"

section \<open>Cart controller (controllers/cartController.js)\<close>

definition sameLine :: "reqItem \<Rightarrow> cartItem \<Rightarrow> bool" where
  "sameLine body item =
     (cartItem.product item = reqItem.product body
      \<and> cartItem.selectedSize item = reqItem.selectedSize body
      \<and> cartItem.selectedColor item = reqItem.selectedColor body)"

text \<open>The line \<open>cart.items.push\<close> appends; \<open>newLineId\<close> is the \<open>_id\<close> Mongoose gives it.\<close>

definition newLine :: "reqItem \<Rightarrow> oid \<Rightarrow> rat \<Rightarrow> cartItem" where
  "newLine body newLineId unitPrice =
     \<lparr>lineId = newLineId, cartItem.product = reqItem.product body,
      cartItem.quantity = reqItem.quantity body, cartItem.price = unitPrice,
      taxAmount = 0, shippingAmount = 0,
      cartItem.selectedSize = orDefault (reqItem.selectedSize body) ''Free Size'',
      cartItem.selectedColor = orDefault (reqItem.selectedColor body) ''Standard''\<rparr>"

text \<open>Merging a request item into the lines: sum into the matching line, or push.\<close>

definition mergeLine :: "reqItem \<Rightarrow> oid \<Rightarrow> rat \<Rightarrow> cartItem list \<Rightarrow> cartItem list" where
  "mergeLine body newLineId unitPrice its =
     (case findIndex (sameLine body) its of
        Some i \<Rightarrow> its[i := (its ! i)\<lparr>cartItem.quantity :=
                       cartItem.quantity (its ! i) + reqItem.quantity body,
                     cartItem.price := unitPrice\<rparr>]
      | None \<Rightarrow> its @ [newLine body newLineId unitPrice])"

text \<open>\<open>Cart.findOne({ user })\<close>, creating the empty cart when there is none.\<close>

definition ensureCart :: "oid \<Rightarrow> db \<Rightarrow> cart \<times> db" where
  "ensureCart uid d =
     (case carts d uid of
        None \<Rightarrow> (emptyCart, d\<lparr>carts := (carts d)(uid \<mapsto> emptyCart)\<rparr>)
      | Some c \<Rightarrow> (c, d))"

definition saveCart :: "oid \<Rightarrow> cart \<Rightarrow> db \<Rightarrow> db" where
  "saveCart uid c d = d\<lparr>carts := (carts d)(uid \<mapsto> c)\<rparr>"

definition addToCart :: "reqUser \<Rightarrow> reqItem \<Rightarrow> oid \<Rightarrow> date \<Rightarrow> db \<Rightarrow> (error + cart) \<times> db" where
  "addToCart usr body newLineId now d =
     (if reqItem.quantity body < 1 then (Inl (AppError 400 ''Quantity must be at least 1''), d)
      else if reqItem.product body = [] then (Inl (AppError 400 ''Product ID is required''), d)
      else case products d (reqItem.product body) of
        None \<Rightarrow> (Inl (AppError 404 ''Product not found''), d)
      | Some productDoc \<Rightarrow>
          (let (c, d1) = ensureCart (userId usr) d;
               existingItemIndex = findIndex (sameLine body) (cart.items c);
               unitPrice = cartUnitPrice productDoc (role usr) now;
               existingQty = (case existingItemIndex of
                                Some i \<Rightarrow> cartItem.quantity (cart.items c ! i)
                              | None \<Rightarrow> 0)
           in if product.stock productDoc < existingQty + reqItem.quantity body
              then (Inl (AppError 400 ''Insufficient stock''), d1)
              else (let c' = recalculateCart (role usr) now (products d1)
                               (c\<lparr>cart.items := mergeLine body newLineId unitPrice (cart.items c)\<rparr>)
                    in (Inr c', saveCart (userId usr) c' d1))))"

definition updateCartItem :: "reqUser \<Rightarrow> string \<Rightarrow> int \<Rightarrow> date \<Rightarrow> db \<Rightarrow> (error + cart) \<times> db" where
  "updateCartItem usr identifier qty now d =
     (if qty < 1 then (Inl (AppError 400 ''Quantity must be at least 1''), d)
      else case carts d (userId usr) of
        None \<Rightarrow> (Inl (AppError 404 ''Cart not found''), d)
      | Some c \<Rightarrow>
          (case findIndex (\<lambda>i. lineId i = identifier \<or> cartItem.product i = identifier)
                  (cart.items c) of
             None \<Rightarrow> (Inl (AppError 404 ''Item not found in cart''), d)
           | Some itemIndex \<Rightarrow>
               (case products d (cartItem.product (cart.items c ! itemIndex)) of
                  None \<Rightarrow>
                    (let c' = recalculateCart (role usr) now (products d)
                                (c\<lparr>cart.items := take itemIndex (cart.items c)
                                     @ drop (Suc itemIndex) (cart.items c)\<rparr>)
                     in (Inl (AppError 404 ''Product no longer exists''),
                         saveCart (userId usr) c' d))
                | Some p \<Rightarrow>
                    if product.stock p < qty
                    then (Inl (AppError 400 ''Only items available''), d)
                    else (let c' = recalculateCart (role usr) now (products d)
                                     (c\<lparr>cart.items := (cart.items c)[itemIndex :=
                                          (cart.items c ! itemIndex)\<lparr>cartItem.quantity := qty\<rparr>]\<rparr>)
                          in (Inr c', saveCart (userId usr) c' d)))))"

definition removeFromCart :: "reqUser \<Rightarrow> string \<Rightarrow> date \<Rightarrow> db \<Rightarrow> (error + cart) \<times> db" where
  "removeFromCart usr identifier now d =
     (case carts d (userId usr) of
        None \<Rightarrow> (Inl (AppError 404 ''Cart not found''), d)
      | Some c \<Rightarrow>
          (let its = filter (\<lambda>i. lineId i \<noteq> identifier) (cart.items c)
           in if length its = length (cart.items c)
              then (Inl (AppError 404 ''Item not found''), d)
              else (let c' = recalculateCart (role usr) now (products d) (c\<lparr>cart.items := its\<rparr>)
                    in (Inr c', saveCart (userId usr) c' d))))"

text \<open>
  The loop of \<open>mergeCart\<close>; every guest item comes with the \<open>_id\<close> its line gets if it is
  pushed.
\<close>

fun mergeLoop :: "string \<Rightarrow> date \<Rightarrow> (oid \<rightharpoonup> product) \<Rightarrow> (reqItem \<times> oid) list
    \<Rightarrow> cartItem list \<Rightarrow> cartItem list" where
  "mergeLoop userRole now ps [] its = its"
| "mergeLoop userRole now ps ((guestItem, newLineId) # rest) its =
     (case ps (reqItem.product guestItem) of
        None \<Rightarrow> mergeLoop userRole now ps rest its
      | Some productDoc \<Rightarrow>
          mergeLoop userRole now ps rest
            (mergeLine guestItem newLineId (cartUnitPrice productDoc userRole now) its))"

definition mergeCart :: "reqUser \<Rightarrow> (reqItem \<times> oid) list \<Rightarrow> date \<Rightarrow> db \<Rightarrow> (error + cart) \<times> db" where
  "mergeCart usr guestCartItems now d =
     (let (c, d1) = ensureCart (userId usr) d;
          c' = recalculateCart (role usr) now (products d1)
                 (c\<lparr>cart.items := mergeLoop (role usr) now (products d1) guestCartItems
                       (cart.items c)\<rparr>)
      in (Inr c', saveCart (userId usr) c' d1))"

section \<open>Coupon controller: validateCoupon\<close>

record couponReqItem =
  product :: oid
  price :: rat
  quantity :: int

record couponReq =
  code :: string
  cartTotal :: rat
  cartItems :: "couponReqItem list"

record couponResponse =
  discountAmount :: int
  couponCode :: string
  couponId :: oid

text \<open>The \<open>forEach\<close> that sums the line totals of the applicable products.\<close>

fun eligibleLoop :: "oid list \<Rightarrow> couponReqItem list \<Rightarrow> rat \<Rightarrow> rat" where
  "eligibleLoop applicableIds [] eligibleTotal = eligibleTotal"
| "eligibleLoop applicableIds (item # rest) eligibleTotal =
     eligibleLoop applicableIds rest
       (if couponReqItem.product item \<in> set applicableIds
        then eligibleTotal + couponReqItem.price item * of_int (couponReqItem.quantity item)
        else eligibleTotal)"

definition validateCoupon :: "date \<Rightarrow> coupon list \<Rightarrow> couponReq \<Rightarrow> error + couponResponse" where
  "validateCoupon now cs body =
     (case find (\<lambda>c. coupon.code c = toUpperCase (couponReq.code body)) cs of
        None \<Rightarrow> Inl (AppError 400 ''Invalid or expired coupon'')
      | Some c \<Rightarrow>
          if \<not> isValid c now then Inl (AppError 400 ''Invalid or expired coupon'')
          else if cartTotal body < minOrderValue c
          then Inl (AppError 400 ''Minimum order value required'')
          else if scope c = ''all''
          then Inr \<lparr>couponResponse.discountAmount =
                      Math_round (cartTotal body * coupon.discountPercentage c / 100),
                    couponCode = coupon.code c, couponResponse.couponId = coupon.couponId c\<rparr>
          else (let eligibleTotal = eligibleLoop (applicableProducts c) (cartItems body) 0
                in if eligibleTotal = 0
                   then Inl (AppError 400 ''Coupon not applicable to items in cart'')
                   else Inr \<lparr>couponResponse.discountAmount =
                               Math_round (eligibleTotal * coupon.discountPercentage c / 100),
                             couponCode = coupon.code c,
                             couponResponse.couponId = coupon.couponId c\<rparr>))"



section \<open>Order controller (controllers/orderController.js)\<close>

record orderReq =
  items :: "reqItem list"
  shippingAddress :: shippingAddr
  paymentMethod :: string
  couponCode :: "string option"

text \<open>What the environment supplies to \<open>createOrder\<close>: the clock, the new document's \<open>_id\<close>
  and the generated order number.\<close>

record orderEnv =
  orderNow :: date
  newOrderId :: oid
  newOrderNumber :: string

text \<open>\<open>xs.find(P)\<close> followed by a mutation of the element found: the first match changes.\<close>

fun updFirst :: "('a \<Rightarrow> bool) \<Rightarrow> ('a \<Rightarrow> 'a) \<Rightarrow> 'a list \<Rightarrow> 'a list" where
  "updFirst P f [] = []"
| "updFirst P f (x # xs) = (if P x then f x # xs else x # updFirst P f xs)"

text \<open>Stock management of \<open>createOrder\<close> for one item.\<close>

definition deductStock :: "reqItem \<Rightarrow> product \<Rightarrow> product" where
  "deductStock item p =
     p\<lparr>product.stock := product.stock p - reqItem.quantity item,
       variants :=
         (if truthy (reqItem.selectedColor item)
          then updFirst (\<lambda>v. Some (colorName v) = reqItem.selectedColor item)
                 (\<lambda>v. v\<lparr>variant.stock := max 0 (variant.stock v - reqItem.quantity item)\<rparr>)
                 (variants p)
          else variants p)\<rparr>"

text \<open>Image handling: the first image's \<open>url\<close>, or the empty string.\<close>

definition productImage :: "product \<Rightarrow> string" where
  "productImage p = (case images p of [] \<Rightarrow> [] | firstImg # _ \<Rightarrow> firstImg)"

definition orderLine :: "reqItem \<Rightarrow> product \<Rightarrow> rat \<Rightarrow> orderItem" where
  "orderLine item p unitPrice =
     \<lparr>orderItem.product = reqItem.product item, orderItem.name = product.name p,
      image_o = productImage p, orderItem.quantity = reqItem.quantity item,
      orderItem.price = unitPrice, orderItem.selectedSize = reqItem.selectedSize item,
      orderItem.selectedColor = reqItem.selectedColor item\<rparr>"

text \<open>
  The item loop of \<open>createOrder\<close>. The accumulator holds \<open>orderItems\<close>, \<open>subtotal\<close> and
  \<open>totalShipping\<close>; every product is saved as soon as its stock is deducted, so the store
  is returned with the error too.
\<close>

fun processItems :: "string \<Rightarrow> date \<Rightarrow> reqItem list \<Rightarrow> (oid \<rightharpoonup> product)
    \<Rightarrow> orderItem list \<times> rat \<times> rat
    \<Rightarrow> (error + orderItem list \<times> rat \<times> rat) \<times> (oid \<rightharpoonup> product)" where
  "processItems userRole now [] ps acc = (Inr acc, ps)"
| "processItems userRole now (item # rest) ps (orderItems, accSubtotal, accShipping) =
     (case ps (reqItem.product item) of
        None \<Rightarrow> (Inl (AppError 404 (''Product not found: '' @ reqItem.product item)), ps)
      | Some p \<Rightarrow>
          if product.stock p < reqItem.quantity item
          then (Inl (AppError 400 (''Insufficient stock for '' @ product.name p)), ps)
          else (let unitPrice = getCurrentPrice p userRole now;
                    lineTotal = unitPrice * of_int (reqItem.quantity item);
                    shippingRate = getShippingCost p userRole;
                    itemShipping = shippingRate * of_int (reqItem.quantity item)
                in processItems userRole now rest
                     (ps(reqItem.product item \<mapsto> deductStock item p))
                     (orderItems @ [orderLine item p unitPrice],
                      accSubtotal + lineTotal, accShipping + itemShipping)))"

text \<open>The filter of \<open>Coupon.findOne\<close> in \<open>createOrder\<close>; a comparison with an absent path
  matches nothing.\<close>

definition orderCouponFilter :: "string \<Rightarrow> date \<Rightarrow> coupon \<Rightarrow> bool" where
  "orderCouponFilter upperCode now c =
     (coupon.code c = upperCode \<and> coupon.isActive c
      \<and> (case startDate c of None \<Rightarrow> False | Some s \<Rightarrow> s \<le> now)
      \<and> (case endDate c of None \<Rightarrow> False | Some e \<Rightarrow> e \<ge> now))"

text \<open>
  Coupon handling of \<open>createOrder\<close>: the discount (\<open>None\<close> when the arithmetic met \<open>undefined\<close>,
  so that the value is \<open>undefined\<close> or \<open>NaN\<close>), the details and the coupons as saved.
\<close>

definition couponAmount :: "coupon \<Rightarrow> rat \<Rightarrow> rat option" where
  "couponAmount c sub =
     (if discountType c = Some ''percentage''
      then (case discountValue c of
              None \<Rightarrow> None
            | Some v \<Rightarrow>
                (case maxDiscount c of
                   None \<Rightarrow> Some (sub * v / 100)
                 | Some m \<Rightarrow> if m > 0 then Some (min (sub * v / 100) m) else Some (sub * v / 100)))
      else discountValue c)"

definition handleCoupon :: "string option \<Rightarrow> string \<Rightarrow> date \<Rightarrow> rat \<Rightarrow> coupon list
    \<Rightarrow> rat option \<times> couponDetails option \<times> coupon list" where
  "handleCoupon cCode userRole now sub cs =
     (if truthy cCode \<and> userRole \<noteq> ''reseller''
      then (case find (orderCouponFilter (toUpperCase (the cCode)) now) cs of
              None \<Rightarrow> (Some 0, None, cs)
            | Some c \<Rightarrow>
                if sub \<ge> minOrderValue c
                then (couponAmount c sub,
                      Some \<lparr>couponDetails.code = coupon.code c,
                            couponDetails.discountAmount = couponAmount c sub,
                            percentage = (if discountType c = Some ''percentage''
                                          then discountValue c else Some 0)\<rparr>,
                      updFirst (\<lambda>x. coupon.couponId x = coupon.couponId c)
                        (\<lambda>x. x\<lparr>usedCount := usedCount x + 1\<rparr>) cs)
                else (Some 0, None, cs))
      else (Some 0, None, cs))"

definition createOrder :: "reqUser \<Rightarrow> orderReq \<Rightarrow> orderEnv \<Rightarrow> db \<Rightarrow> (error + order) \<times> db" where
  "createOrder usr body env d =
     (if orderReq.paymentMethod body = ''cod''
      then (Inl (AppError 400
              ''Cash on Delivery is currently unavailable. Please use online payment.''), d)
      else if orderReq.items body = [] then (Inl (AppError 400 ''Order items are required''), d)
      else case processItems (role usr) (orderNow env) (orderReq.items body) (products d)
                  ([], 0, 0) of
        (Inl e, ps) \<Rightarrow> (Inl e, d\<lparr>products := ps\<rparr>)
      | (Inr (orderItems, sub, totalShip), ps) \<Rightarrow>
          (case handleCoupon (couponCode body) (role usr) (orderNow env) sub (coupons d) of
             (None, details, cs) \<Rightarrow>
               (Inl (ValidationError ''Order validation failed: totalAmount''),
                d\<lparr>products := ps, coupons := cs\<rparr>)
           | (Some discount, details, cs) \<Rightarrow>
               (let ord = \<lparr>order.user = userId usr, customerEmail = email usr,
                      customerPhone = phone (orderReq.shippingAddress body),
                      orderNumber = newOrderNumber env, order.items = orderItems,
                      order.shippingAddress = orderReq.shippingAddress body,
                      order.paymentMethod = ''razorpay'', order.paymentStatus = ''pending'',
                      paymentDetails = None, order.subtotal = sub,
                      couponDiscount = discount, couponDetails = details,
                      order.shippingCost = totalShip, tax = 0,
                      order.totalAmount = round2 (sub + totalShip - discount),
                      order.status = ''pending'', statusHistory = [],
                      emailNotifications = \<lparr>confirmationSent = False, shippedSent = False,
                        deliveredSent = False\<rparr>\<rparr>
                in (Inr ord,
                    d\<lparr>products := ps, coupons := cs,
                      orders := (orders d)(newOrderId env \<mapsto> ord),
                      carts := (carts d)(userId usr := None)\<rparr>))))"

text \<open>Stock restoration of \<open>cancelOrder\<close> for one item.\<close>

definition restoreStock :: "orderItem \<Rightarrow> product \<Rightarrow> product" where
  "restoreStock item p =
     p\<lparr>product.stock := product.stock p + orderItem.quantity item,
       variants :=
         (if truthy (orderItem.selectedColor item)
          then updFirst (\<lambda>v. Some (colorName v) = orderItem.selectedColor item)
                 (\<lambda>v. v\<lparr>variant.stock := variant.stock v + orderItem.quantity item\<rparr>)
                 (variants p)
          else variants p)\<rparr>"

text \<open>
  The restoration loop of \<open>cancelOrder\<close>: \<open>Product.findById\<close> may return \<open>null\<close>, and
  \<open>product.stock\<close> is then a \<open>TypeError\<close>; the products saved before it stay saved.
\<close>

fun restoreItems :: "orderItem list \<Rightarrow> (oid \<rightharpoonup> product) \<Rightarrow> error option \<times> (oid \<rightharpoonup> product)" where
  "restoreItems [] ps = (None, ps)"
| "restoreItems (item # rest) ps =
     (case ps (orderItem.product item) of
        None \<Rightarrow> (Some (TypeError ''Cannot read properties of null (reading stock)''), ps)
      | Some p \<Rightarrow> restoreItems rest (ps(orderItem.product item \<mapsto> restoreStock item p)))"

definition cancelOrder :: "reqUser \<Rightarrow> oid \<Rightarrow> date \<Rightarrow> db \<Rightarrow> (error + order) \<times> db" where
  "cancelOrder usr ident now d =
     (case orders d ident of
        None \<Rightarrow> (Inl (AppError 404 ''Order not found''), d)
      | Some ord \<Rightarrow>
          if order.user ord \<noteq> userId usr
          then (Inl (AppError 403 ''Not authorized to cancel this order''), d)
          else if order.status ord \<in> set [''shipped'', ''delivered'', ''cancelled'', ''refunded'']
          then (Inl (AppError 400 ''Order cannot be cancelled''), d)
          else (let ord' = ord\<lparr>order.status := ''cancelled'',
                      statusHistory := statusHistory ord @
                        [\<lparr>statusEntry.status = ''cancelled'', timestamp = now,
                          note_h = ''Order cancelled by user''\<rparr>]\<rparr>;
                    d1 = d\<lparr>orders := (orders d)(ident \<mapsto> ord')\<rparr>
                in case restoreItems (order.items ord') (products d1) of
                     (Some e, ps) \<Rightarrow> (Inl e, d1\<lparr>products := ps\<rparr>)
                   | (None, ps) \<Rightarrow> (Inr ord', d1\<lparr>products := ps\<rparr>)))"

text \<open>
  For stating what cancellation restores. A move is a product id, a signed quantity and a
  selected colour; \<open>shift\<close> applies one to a product without any floor, \<open>shiftAll\<close> applies a
  list of them to the store. \<open>noFloor\<close> says that no deduction of \<open>createOrder\<close>'s loop was cut
  off at 0 by \<open>Math.max\<close>: each selected variant held at least the quantity when its item
  was processed.
\<close>

type_synonym move = "oid \<times> int \<times> string option"

definition reqMove :: "reqItem \<Rightarrow> move" where
  "reqMove item = (reqItem.product item, reqItem.quantity item, reqItem.selectedColor item)"

definition lineMove :: "orderItem \<Rightarrow> move" where
  "lineMove l = (orderItem.product l, orderItem.quantity l, orderItem.selectedColor l)"

definition negMove :: "move \<Rightarrow> move" where
  "negMove m = (fst m, - fst (snd m), snd (snd m))"

definition shiftVariants :: "int \<Rightarrow> string option \<Rightarrow> variant list \<Rightarrow> variant list" where
  "shiftVariants k c vs =
     (if truthy c
      then updFirst (\<lambda>v. Some (colorName v) = c) (\<lambda>v. v\<lparr>variant.stock := variant.stock v + k\<rparr>) vs
      else vs)"

definition shift :: "int \<Rightarrow> string option \<Rightarrow> product \<Rightarrow> product" where
  "shift k c p =
     p\<lparr>product.stock := product.stock p + k, variants := shiftVariants k c (variants p)\<rparr>"

definition shiftAt :: "move \<Rightarrow> (oid \<rightharpoonup> product) \<Rightarrow> (oid \<rightharpoonup> product)" where
  "shiftAt m ps =
     (case ps (fst m) of
        None \<Rightarrow> ps
      | Some p \<Rightarrow> ps(fst m \<mapsto> shift (fst (snd m)) (snd (snd m)) p))"

fun shiftAll :: "move list \<Rightarrow> (oid \<rightharpoonup> product) \<Rightarrow> (oid \<rightharpoonup> product)" where
  "shiftAll [] ps = ps"
| "shiftAll (m # ms) ps = shiftAll ms (shiftAt m ps)"

definition moved :: "oid \<Rightarrow> move list \<Rightarrow> int" where
  "moved pid ms = (\<Sum>m\<leftarrow>ms. if fst m = pid then fst (snd m) else 0)"

definition variantCovers :: "reqItem \<Rightarrow> product \<Rightarrow> bool" where
  "variantCovers item p =
     (if truthy (reqItem.selectedColor item)
      then (case find (\<lambda>v. Some (colorName v) = reqItem.selectedColor item) (variants p) of
              None \<Rightarrow> True
            | Some v \<Rightarrow> reqItem.quantity item \<le> variant.stock v)
      else True)"

fun noFloor :: "reqItem list \<Rightarrow> (oid \<rightharpoonup> product) \<Rightarrow> bool" where
  "noFloor [] ps = True"
| "noFloor (item # rest) ps =
     (case ps (reqItem.product item) of
        None \<Rightarrow> True
      | Some p \<Rightarrow> variantCovers item p
                  \<and> noFloor rest (ps(reqItem.product item \<mapsto> deductStock item p)))"

section \<open>Payment controller (controllers/paymentController.js): verifyPayment\<close>

record verifyReq =
  razorpay_order_id :: string
  razorpay_payment_id :: string
  razorpay_signature :: string
  orderId :: string

text \<open>
  What the environment supplies to \<open>verifyPayment\<close>: the keyed digest
  \<open>crypto.createHmac('sha256', secret).update(body).digest('hex')\<close> as a function of the
  secret and the body, the secret, the clock, the new payment's \<open>_id\<close> and whether the mail
  transport delivers.
\<close>

record verifyEnv =
  hmacSha256 :: "string \<Rightarrow> string \<Rightarrow> string"
  keySecret :: string
  verifyNow :: date
  newPaymentId :: oid
  mailDelivers :: bool

definition newPayment :: "reqUser \<Rightarrow> verifyReq \<Rightarrow> verifyEnv \<Rightarrow> order \<Rightarrow> payment" where
  "newPayment usr body env ord =
     \<lparr>paymentDocId = newPaymentId env, payment.order = verifyReq.orderId body,
      payment.user = userId usr, amount = order.totalAmount ord,
      payment.paymentMethod = ''razorpay'', payment.paymentStatus = ''completed'',
      razorpayDetails = \<lparr>razorpayDetails.orderId = razorpay_order_id body,
        paymentId = razorpay_payment_id body, signature = razorpay_signature body\<rparr>,
      payment.transactionId = Some (razorpay_payment_id body), failureReason = None\<rparr>"

definition failedPayment :: "reqUser \<Rightarrow> verifyReq \<Rightarrow> verifyEnv \<Rightarrow> order \<Rightarrow> payment" where
  "failedPayment usr body env ord =
     \<lparr>paymentDocId = newPaymentId env, payment.order = verifyReq.orderId body,
      payment.user = userId usr, amount = order.totalAmount ord,
      payment.paymentMethod = ''razorpay'', payment.paymentStatus = ''failed'',
      razorpayDetails = \<lparr>razorpayDetails.orderId = razorpay_order_id body,
        paymentId = razorpay_payment_id body, signature = razorpay_signature body\<rparr>,
      payment.transactionId = None, failureReason = Some ''Invalid Signature''\<rparr>"

definition verifyPayment :: "reqUser \<Rightarrow> verifyReq \<Rightarrow> verifyEnv \<Rightarrow> db \<Rightarrow> (error + oid) \<times> db" where
  "verifyPayment usr body env d =
     (if razorpay_order_id body = [] \<or> razorpay_payment_id body = []
         \<or> razorpay_signature body = [] \<or> verifyReq.orderId body = []
      then (Inl (AppError 400 ''Missing payment verification details''), d)
      else case orders d (verifyReq.orderId body) of
        None \<Rightarrow> (Inl (AppError 404 ''Order not found''), d)
      | Some ord \<Rightarrow>
          (let expectedSignature = hmacSha256 env (keySecret env)
                 (razorpay_order_id body @ ''|'' @ razorpay_payment_id body);
               isAuthentic = (expectedSignature = razorpay_signature body)
           in if isAuthentic
              then (let found = find (\<lambda>p. payment.transactionId p = Some (razorpay_payment_id body))
                                  (payments d);
                        pay = (case found of None \<Rightarrow> newPayment usr body env ord | Some p \<Rightarrow> p);
                        pays = (case found of None \<Rightarrow> payments d @ [pay] | Some p \<Rightarrow> payments d);
                        ord' = ord\<lparr>order.paymentStatus := ''completed'',
                                 order.status := ''processing'',
                                 paymentDetails := Some
                                   \<lparr>razorpayOrderId = razorpay_order_id body,
                                    razorpayPaymentId = razorpay_payment_id body,
                                    razorpaySignature = razorpay_signature body,
                                    paymentDetails.transactionId = razorpay_payment_id body,
                                    paymentDate = verifyNow env\<rparr>\<rparr>;
                        mails = (if \<not> confirmationSent (emailNotifications ord')
                                 then outbox d @ [\<lparr>template = ''paymentConfirmed'',
                                        mailOrder = verifyReq.orderId body,
                                        delivered = mailDelivers env\<rparr>]
                                 else outbox d)
                    in (Inr (paymentDocId pay),
                        d\<lparr>payments := pays,
                          orders := (orders d)(verifyReq.orderId body \<mapsto> ord'),
                          outbox := mails\<rparr>))
              else (Inl (AppError 400 ''Payment verification failed: Invalid Signature''),
                    d\<lparr>payments := payments d @ [failedPayment usr body env ord]\<rparr>)))"

text \<open>
  For stating what a verification does: a request that passes the basic validation and the
  signature check, the order as step 4 saves it, the mail step 5 sends, and the ledger's
  entries for a payment id.
\<close>

definition verifiedOrder :: "verifyReq \<Rightarrow> verifyEnv \<Rightarrow> order \<Rightarrow> order" where
  "verifiedOrder body env ord = ord\<lparr>order.paymentStatus := ''completed'',
      order.status := ''processing'',
      paymentDetails := Some \<lparr>razorpayOrderId = razorpay_order_id body,
         razorpayPaymentId = razorpay_payment_id body,
         razorpaySignature = razorpay_signature body,
         paymentDetails.transactionId = razorpay_payment_id body,
         paymentDate = verifyNow env\<rparr>\<rparr>"

definition confirmationMail :: "verifyReq \<Rightarrow> verifyEnv \<Rightarrow> mail" where
  "confirmationMail body env = \<lparr>template = ''paymentConfirmed'',
      mailOrder = verifyReq.orderId body, delivered = mailDelivers env\<rparr>"

definition validTuple :: "verifyReq \<Rightarrow> verifyEnv \<Rightarrow> bool" where
  "validTuple body env =
     (razorpay_order_id body \<noteq> [] \<and> razorpay_payment_id body \<noteq> []
      \<and> razorpay_signature body \<noteq> [] \<and> verifyReq.orderId body \<noteq> []
      \<and> hmacSha256 env (keySecret env) (razorpay_order_id body @ ''|'' @ razorpay_payment_id body)
          = razorpay_signature body)"

definition ledgerEntries :: "string \<Rightarrow> db \<Rightarrow> payment list" where
  "ledgerEntries pid d = filter (\<lambda>p. payment.transactionId p = Some pid) (payments d)"

section \<open>Sequences of calls\<close>

datatype call =
  AddToCart reqUser reqItem oid date
| CreateOrder reqUser orderReq orderEnv

fun step :: "db \<Rightarrow> call \<Rightarrow> db" where
  "step d (AddToCart usr body newLineId now) = snd (addToCart usr body newLineId now d)"
| "step d (CreateOrder usr body env) = snd (createOrder usr body env d)"

definition run :: "db \<Rightarrow> call list \<Rightarrow> db" where
  "run d calls = foldl step d calls"

text \<open>The names the specification gives to the errors.\<close>

definition InsufficientStock :: "error \<Rightarrow> bool" where
  "InsufficientStock e =
     (case e of AppError c m \<Rightarrow> c = 400 \<and> take 18 m = ''Insufficient stock'' | _ \<Rightarrow> False)"

definition VerificationFailed :: error where
  "VerificationFailed = AppError 400 ''Payment verification failed: Invalid Signature''"

definition InvalidTransition :: error where
  "InvalidTransition = AppError 400 ''Order cannot be cancelled''"


text \<open>The cart schema's \<open>min: 1\<close> on \<open>quantity\<close>, which every saved cart satisfies.\<close>

definition cartQuantitiesValid :: "db \<Rightarrow> bool" where
  "cartQuantitiesValid d =
     (\<forall>u c l. carts d u = Some c \<longrightarrow> l \<in> set (cart.items c) \<longrightarrow> 1 \<le> cartItem.quantity l)"

definition stockNonNegative :: "db \<Rightarrow> bool" where
  "stockNonNegative d = (\<forall>pid p. products d pid = Some p \<longrightarrow> 0 \<le> product.stock p)"

section \<open>Example data\<close>

definition book :: product where
  "book = \<lparr>product.name = ''Atlas'', images = [''https://img.example/atlas.png''],
     product.price = 100, product.stock = 10, product.discountPercentage = 20,
     discountStartDate = Some 1000, discountEndDate = Some 3000, wholesalePrice = 70,
     retail = \<lparr>logistics.shippingCost = 50, taxPercentage = 0\<rparr>,
     wholesale = \<lparr>logistics.shippingCost = 30, taxPercentage = 0\<rparr>,
     variants = [\<lparr>colorName = ''Red'', size_v = ''M'', variant.stock = 2\<rparr>]\<rparr>"

definition alice :: reqUser where
  "alice = \<lparr>userId = ''u1'', email = ''alice@example.org'', role = ''user''\<rparr>"

definition home :: shippingAddr where
  "home = \<lparr>shippingAddr.name = ''Alice'', phone = ''9000000000'', address = ''1 Main Road'',
     city = ''Chennai'', state = ''TN'', pincode = ''600001''\<rparr>"

definition shop :: db where
  "shop = \<lparr>products = [''p1'' \<mapsto> book], carts = Map.empty, coupons = [], orders = Map.empty,
     payments = [], outbox = []\<rparr>"

definition want :: "int \<Rightarrow> reqItem" where
  "want n = \<lparr>reqItem.product = ''p1'', reqItem.quantity = n, reqItem.selectedSize = None,
     reqItem.selectedColor = None\<rparr>"

definition checkout :: "reqItem list \<Rightarrow> orderReq" where
  "checkout its = \<lparr>orderReq.items = its, orderReq.shippingAddress = home,
     orderReq.paymentMethod = ''card'', couponCode = None\<rparr>"

definition env1 :: orderEnv where
  "env1 = \<lparr>orderNow = 2000, newOrderId = ''o1'', newOrderNumber = ''SR1''\<rparr>"






definition order1 :: order where
  "order1 = \<lparr>order.user = ''u1'', customerEmail = ''alice@example.org'',
     customerPhone = ''9000000000'', orderNumber = ''SR1'',
     order.items = [\<lparr>orderItem.product = ''p1'', orderItem.name = ''Atlas'',
        image_o = ''https://img.example/atlas.png'', orderItem.quantity = 2,
        orderItem.price = 80, orderItem.selectedSize = None, orderItem.selectedColor = None\<rparr>],
     order.shippingAddress = home, order.paymentMethod = ''razorpay'',
     order.paymentStatus = ''pending'', paymentDetails = None, order.subtotal = 160,
     couponDiscount = 0, couponDetails = None, order.shippingCost = 100, tax = 0,
     order.totalAmount = 260, order.status = ''pending'', statusHistory = [],
     emailNotifications = \<lparr>confirmationSent = False, shippedSent = False,
       deliveredSent = False\<rparr>\<rparr>"

definition shop1 :: db where
  "shop1 = \<lparr>products = [''p1'' \<mapsto> book\<lparr>product.stock := 8\<rparr>], carts = Map.empty,
     coupons = [], orders = [''o1'' \<mapsto> order1], payments = [], outbox = []\<rparr>"

text \<open>A stand-in for the keyed digest in the examples.\<close>

definition demoHmac :: "string \<Rightarrow> string \<Rightarrow> string" where
  "demoHmac k body = k @ ''|'' @ body"

definition venv :: "oid \<Rightarrow> verifyEnv" where
  "venv pid = \<lparr>hmacSha256 = demoHmac, keySecret = ''k'', verifyNow = 3000, newPaymentId = pid,
     mailDelivers = True\<rparr>"

definition okReq :: verifyReq where
  "okReq = \<lparr>razorpay_order_id = ''order_9'', razorpay_payment_id = ''pay_7'',
     razorpay_signature = ''k|order_9|pay_7'', verifyReq.orderId = ''o1''\<rparr>"

definition forgedReq :: verifyReq where
  "forgedReq = okReq\<lparr>razorpay_signature := ''forged''\<rparr>"

definition blankReq :: verifyReq where
  "blankReq = forgedReq\<lparr>razorpay_payment_id := []\<rparr>"

definition save10 :: coupon where
  "save10 = \<lparr>coupon.couponId = ''c1'', coupon.code = ''SAVE10'', coupon.discountPercentage = 10,
     scope = ''all'', applicableProducts = [], minOrderValue = 100, expirationDate = 9000,
     coupon.isActive = True, usedCount = 0, startDate = None, endDate = None,
     discountType = None, discountValue = None, maxDiscount = None\<rparr>"

definition couponShop :: db where
  "couponShop = shop\<lparr>coupons := [save10]\<rparr>"




definition goneOrder :: order where
  "goneOrder = order1\<lparr>order.items :=
     [\<lparr>orderItem.product = ''p1'', orderItem.name = ''Atlas'', image_o = [],
       orderItem.quantity = 2, orderItem.price = 80, orderItem.selectedSize = None,
       orderItem.selectedColor = None\<rparr>,
      \<lparr>orderItem.product = ''gone'', orderItem.name = ''Map'', image_o = [],
       orderItem.quantity = 1, orderItem.price = 5, orderItem.selectedSize = None,
       orderItem.selectedColor = None\<rparr>,
      \<lparr>orderItem.product = ''p1'', orderItem.name = ''Atlas'', image_o = [],
       orderItem.quantity = 3, orderItem.price = 80, orderItem.selectedSize = None,
       orderItem.selectedColor = None\<rparr>]\<rparr>"

definition goneShop :: db where
  "goneShop = shop1\<lparr>products := [''p1'' \<mapsto> book\<lparr>product.stock := 5\<rparr>],
     orders := [''o2'' \<mapsto> goneOrder]\<rparr>"

text \<open>The order as \<open>cancelOrder\<close> saves it before it restores any stock.\<close>

definition cancelled :: "date \<Rightarrow> order \<Rightarrow> order" where
  "cancelled now ord = ord\<lparr>order.status := ''cancelled'',
     statusHistory := statusHistory ord @
       [\<lparr>statusEntry.status = ''cancelled'', timestamp = now,
         note_h = ''Order cancelled by user''\<rparr>]\<rparr>"

definition wantRed :: "int \<Rightarrow> reqItem" where
  "wantRed n = (want n)\<lparr>reqItem.selectedColor := Some ''Red''\<rparr>"

definition redOrder :: order where
  "redOrder = order1\<lparr>order.items :=
     [\<lparr>orderItem.product = ''p1'', orderItem.name = ''Atlas'',
       image_o = ''https://img.example/atlas.png'', orderItem.quantity = 2,
       orderItem.price = 80, orderItem.selectedSize = None,
       orderItem.selectedColor = Some ''Red''\<rparr>]\<rparr>"

definition redShop :: db where
  "redShop = shop\<lparr>products := [''p1'' \<mapsto> book\<lparr>product.stock := 8,
       variants := [\<lparr>colorName = ''Red'', size_v = ''M'', variant.stock = 0\<rparr>]\<rparr>],
     orders := [''o1'' \<mapsto> redOrder]\<rparr>"

section \<open>Price resolution\<close>

lemma round2_80: "round2 80 = 80"
  by code_simp



section \<open>Stock never goes negative\<close>

lemma processItems_stock:
  "(\<forall>i p. ps i = Some p \<longrightarrow> 0 \<le> product.stock p) \<Longrightarrow>
   snd (processItems r n its ps acc) i = Some p \<Longrightarrow> 0 \<le> product.stock p"
proof (induction r n its ps acc arbitrary: i p rule: processItems.induct)
  case (1 userRole now ps acc)
  then show ?case by simp
next
  case (2 userRole now item rest ps orderItems accSubtotal accShipping)
  show ?case
  proof (cases "ps (reqItem.product item)")
    case None
    with 2 show ?thesis by simp
  next
    case (Some q)
    show ?thesis
    proof (cases "product.stock q < reqItem.quantity item")
      case True
      with 2 Some show ?thesis by simp
    next
      case False
      have inv: "\<forall>i p. (ps(reqItem.product item \<mapsto> deductStock item q)) i = Some p \<longrightarrow> 0 \<le> product.stock p"
        using "2.prems"(1) False by (auto simp: deductStock_def)
      from "2.prems"(2) Some False
      have "snd (processItems userRole now rest (ps(reqItem.product item \<mapsto> deductStock item q))
                (orderItems @ [orderLine item q (getCurrentPrice q userRole now)],
                 accSubtotal + getCurrentPrice q userRole now * of_int (reqItem.quantity item),
                 accShipping + getShippingCost q userRole * of_int (reqItem.quantity item))) i = Some p"
        by (simp add: Let_def)
      with "2.IH"[OF Some False refl refl refl refl inv] show ?thesis by blast
    qed
  qed
qed

lemma products_addToCart: "products (snd (addToCart usr body nid now d)) = products d"
  by (auto simp: addToCart_def ensureCart_def saveCart_def Let_def split: option.splits prod.splits)

lemma products_createOrder:
  "products (snd (createOrder usr body env d)) = products d \<or>
   products (snd (createOrder usr body env d)) =
     snd (processItems (role usr) (orderNow env) (orderReq.items body) (products d) ([], 0, 0))"
  by (auto simp: createOrder_def Let_def split: option.splits prod.splits sum.splits)

lemma step_stock: "stockNonNegative d \<Longrightarrow> stockNonNegative (step d c)"
proof (cases c)
  case (AddToCart usr body nid now)
  assume "stockNonNegative d"
  then show ?thesis using AddToCart by (simp add: stockNonNegative_def products_addToCart)
next
  case (CreateOrder usr body env)
  assume a: "stockNonNegative d"
  show ?thesis
    using products_createOrder[of usr body env d] a processItems_stock[of "products d"]
    unfolding CreateOrder stockNonNegative_def by (metis step.simps(2))
qed

lemma run_stock: "stockNonNegative d \<Longrightarrow> stockNonNegative (run d calls)"
  unfolding run_def by (induction calls arbitrary: d) (simp_all add: step_stock)

lemma processItems_append:
  "processItems r n xs ps acc = (Inr acc1, ps1) \<Longrightarrow>
   processItems r n (xs @ ys) ps acc = processItems r n ys ps1 acc1"
proof (induction r n xs ps acc rule: processItems.induct)
  case (1 userRole now ps acc)
  then show ?case by simp
next
  case (2 userRole now item rest ps orderItems accSubtotal accShipping)
  show ?case
  proof (cases "ps (reqItem.product item)")
    case None
    with "2.prems" show ?thesis by simp
  next
    case (Some q)
    show ?thesis
    proof (cases "product.stock q < reqItem.quantity item")
      case True
      with "2.prems" Some show ?thesis by simp
    next
      case False
      from "2.prems" Some False
      have "processItems userRole now rest (ps(reqItem.product item \<mapsto> deductStock item q))
                (orderItems @ [orderLine item q (getCurrentPrice q userRole now)],
                 accSubtotal + getCurrentPrice q userRole now * of_int (reqItem.quantity item),
                 accShipping + getShippingCost q userRole * of_int (reqItem.quantity item))
            = (Inr acc1, ps1)"
        by (simp add: Let_def)
      then have b: "processItems userRole now (rest @ ys)
                (ps(reqItem.product item \<mapsto> deductStock item q))
                (orderItems @ [orderLine item q (getCurrentPrice q userRole now)],
                 accSubtotal + getCurrentPrice q userRole now * of_int (reqItem.quantity item),
                 accShipping + getShippingCost q userRole * of_int (reqItem.quantity item))
            = processItems userRole now ys ps1 acc1"
        by (rule "2.IH"[OF Some False refl refl refl refl])
      have a: "processItems userRole now ((item # rest) @ ys) ps
                (orderItems, accSubtotal, accShipping)
            = processItems userRole now (rest @ ys)
                (ps(reqItem.product item \<mapsto> deductStock item q))
                (orderItems @ [orderLine item q (getCurrentPrice q userRole now)],
                 accSubtotal + getCurrentPrice q userRole now * of_int (reqItem.quantity item),
                 accShipping + getShippingCost q userRole * of_int (reqItem.quantity item))"
        using Some False by (simp add: Let_def)
      show ?thesis using a b by (rule trans)
    qed
  qed
qed

lemma processItems_insufficient:
  "ps (reqItem.product it) = Some p \<Longrightarrow> product.stock p < reqItem.quantity it \<Longrightarrow>
   processItems r n (it # ys) ps acc =
     (Inl (AppError 400 (''Insufficient stock for '' @ product.name p)), ps)"
  by (cases acc) simp

lemma createOrder_insufficient:
  assumes "orderReq.paymentMethod body \<noteq> ''cod''"
    and "orderReq.items body = xs @ it # ys"
    and "processItems (role usr) (orderNow env) xs (products d) ([], 0, 0) = (Inr acc, ps1)"
    and "ps1 (reqItem.product it) = Some p"
    and "product.stock p < reqItem.quantity it"
  shows "createOrder usr body env d =
     (Inl (AppError 400 (''Insufficient stock for '' @ product.name p)), d\<lparr>products := ps1\<rparr>)"
  using assms processItems_append[OF assms(3), of "it # ys"]
    processItems_insufficient[of ps1 it p "role usr" "orderNow env" ys acc]
  by (simp add: createOrder_def)

lemma findIndex_Some: "findIndex P xs = Some i \<Longrightarrow> i < length xs \<and> P (xs ! i)"
  by (induction xs arbitrary: i) (auto split: if_splits option.splits)

lemma addToCart_insufficient:
  assumes "stockNonNegative d" and "cartQuantitiesValid d"
    and "reqItem.product body \<noteq> []"
    and "products d (reqItem.product body) = Some q"
    and "product.stock q < reqItem.quantity body"
  shows "fst (addToCart usr body nid now d) = Inl (AppError 400 ''Insufficient stock'')"
proof -
  have q0: "0 \<le> product.stock q" using assms(1,4) by (auto simp: stockNonNegative_def)
  have ex: "0 \<le> (case findIndex (sameLine body) (cart.items c) of
                    Some i \<Rightarrow> cartItem.quantity (cart.items c ! i) | None \<Rightarrow> 0)"
    if "carts d (userId usr) = Some c" for c
  proof (cases "findIndex (sameLine body) (cart.items c)")
    case None
    then show ?thesis by simp
  next
    case (Some i)
    then have "cart.items c ! i \<in> set (cart.items c)"
      using findIndex_Some[OF Some] by simp
    with assms(2) that have "1 \<le> cartItem.quantity (cart.items c ! i)"
      unfolding cartQuantitiesValid_def by blast
    with Some show ?thesis by simp
  qed
  show ?thesis
  proof (cases "carts d (userId usr)")
    case None
    with assms q0 show ?thesis
      by (simp add: addToCart_def ensureCart_def emptyCart_def Let_def)
  next
    case (Some c)
    with assms q0 ex[OF Some] show ?thesis
      by (simp add: addToCart_def ensureCart_def Let_def)
  qed
qed

text \<open>
  C1. For every sequence of \<open>addToCart\<close> and \<open>createOrder\<close> calls run one after the other from
  a database in which no product's stock is negative, no product's stock is negative
  afterwards. An order item whose quantity exceeds its product's stock, met after the items
  before it were processed, stops \<open>createOrder\<close> with "Insufficient stock for ..." and the
  store stays as those earlier items left it, so that product's stock is the one that was
  checked. An \<open>addToCart\<close> whose quantity exceeds the product's stock is rejected with
  "Insufficient stock" and changes no product.
\<close>

theorem stock_never_negative:
  "(stockNonNegative d \<longrightarrow> stockNonNegative (run d calls))
   \<and> (orderReq.paymentMethod body \<noteq> ''cod'' \<and> orderReq.items body = xs @ it # ys
      \<and> processItems (role usr) (orderNow env) xs (products d) ([], 0, 0) = (Inr acc, ps1)
      \<and> ps1 (reqItem.product it) = Some p \<and> product.stock p < reqItem.quantity it
      \<longrightarrow> createOrder usr body env d =
            (Inl (AppError 400 (''Insufficient stock for '' @ product.name p)),
             d\<lparr>products := ps1\<rparr>)
          \<and> InsufficientStock (AppError 400 (''Insufficient stock for '' @ product.name p)))
   \<and> (stockNonNegative d \<and> cartQuantitiesValid d \<and> reqItem.product item \<noteq> []
      \<and> products d (reqItem.product item) = Some q \<and> product.stock q < reqItem.quantity item
      \<longrightarrow> fst (addToCart usr item newLineId now d) = Inl (AppError 400 ''Insufficient stock'')
          \<and> InsufficientStock (AppError 400 ''Insufficient stock'')
          \<and> products (snd (addToCart usr item newLineId now d)) = products d)"
  using run_stock createOrder_insufficient addToCart_insufficient products_addToCart
  by (simp add: InsufficientStock_def)

lemma shop_ok: "stockNonNegative shop \<and> cartQuantitiesValid shop"
  by (simp add: stockNonNegative_def cartQuantitiesValid_def shop_def book_def)

theorem stock_never_negative_witness:
  "stockNonNegative shop
   \<and> stockNonNegative (run shop [AddToCart alice (want 2) ''l1'' 2000,
        CreateOrder alice (checkout [want 3, want 4]) env1])
   \<and> createOrder alice (checkout [want 3, want 8]) env1 shop =
       (Inl (AppError 400 ''Insufficient stock for Atlas''),
        shop\<lparr>products := [''p1'' \<mapsto> book\<lparr>product.stock := 7\<rparr>]\<rparr>)
   \<and> fst (addToCart alice (want 11) ''l1'' 2000 shop) = Inl (AppError 400 ''Insufficient stock'')
   \<and> products (snd (addToCart alice (want 11) ''l1'' 2000 shop)) = products shop"
proof -
  have pre: "processItems (role alice) (orderNow env1) [want 3] (products shop) ([], 0, 0) =
      (Inr ([orderLine (want 3) book 80], 240, 150), [''p1'' \<mapsto> book\<lparr>product.stock := 7\<rparr>])"
    using round2_80
    by (simp add: shop_def alice_def env1_def want_def book_def getCurrentPrice_def finalPrice_def
        isDiscountActive_def getShippingCost_def deductStock_def truthy_def round2_def)
  show ?thesis
    using shop_ok pre
      stock_never_negative [of shop "[AddToCart alice (want 2) ''l1'' 2000,
          CreateOrder alice (checkout [want 3, want 4]) env1]"
        "checkout [want 3, want 8]" "[want 3]" "want 8" "[]" alice env1
        "([orderLine (want 3) book 80], 240, 150)" "[''p1'' \<mapsto> book\<lparr>product.stock := 7\<rparr>]"
        "book\<lparr>product.stock := 7\<rparr>" "want 11" book "''l1''" 2000]
    by (simp add: checkout_def want_def shop_def book_def)
qed

section \<open>Cart totals\<close>










text \<open>
  Every cart that \<open>addToCart\<close>, \<open>updateCartItem\<close>, \<open>removeFromCart\<close> or \<open>mergeCart\<close> returns
  is the result of \<open>recalculateCart\<close> against the products as they stand, and is the cart
  stored for the user.
\<close>

lemma addToCart_recalculated:
  "addToCart usr body nid now d = (Inr c, d') \<Longrightarrow>
   (\<exists>c0. c = recalculateCart (role usr) now (products d') c0) \<and> carts d' (userId usr) = Some c"
  by (auto simp: addToCart_def ensureCart_def saveCart_def Let_def
      split: if_splits option.splits prod.splits)

lemma updateCartItem_recalculated:
  "updateCartItem usr ident qty now d = (Inr c, d') \<Longrightarrow>
   (\<exists>c0. c = recalculateCart (role usr) now (products d') c0) \<and> carts d' (userId usr) = Some c"
  by (auto simp: updateCartItem_def saveCart_def Let_def
      split: if_splits option.splits prod.splits)

lemma removeFromCart_recalculated:
  "removeFromCart usr ident now d = (Inr c, d') \<Longrightarrow>
   (\<exists>c0. c = recalculateCart (role usr) now (products d') c0) \<and> carts d' (userId usr) = Some c"
  by (auto simp: removeFromCart_def saveCart_def Let_def
      split: if_splits option.splits prod.splits)

lemma mergeCart_recalculated:
  "mergeCart usr guest now d = (Inr c, d') \<Longrightarrow>
   (\<exists>c0. c = recalculateCart (role usr) now (products d') c0) \<and> carts d' (userId usr) = Some c"
  by (auto simp: mergeCart_def ensureCart_def saveCart_def Let_def
      split: if_splits option.splits prod.splits)





section \<open>Order creation: payment method\<close>




section \<open>Payment verification\<close>

lemma verifyPayment_tampered:
  assumes "razorpay_order_id body \<noteq> []" "razorpay_payment_id body \<noteq> []"
    "razorpay_signature body \<noteq> []" "verifyReq.orderId body \<noteq> []"
    "orders d (verifyReq.orderId body) = Some ord"
    "razorpay_signature body \<noteq>
       hmacSha256 env (keySecret env) (razorpay_order_id body @ ''|'' @ razorpay_payment_id body)"
  shows "verifyPayment usr body env d =
     (Inl VerificationFailed, d\<lparr>payments := payments d @ [failedPayment usr body env ord]\<rparr>)"
  using assms by (auto simp: verifyPayment_def VerificationFailed_def Let_def)

text \<open>
  C5 (as amended). A call of \<open>verifyPayment\<close> whose four fields are all non-empty, whose order
  exists and whose signature differs from the keyed digest of
  \<open>razorpay_order_id + "|" + razorpay_payment_id\<close> fails with "Payment verification failed:
  Invalid Signature", appends exactly one \<open>failed\<close> payment with reason "Invalid Signature" and
  leaves every order as it was. A call with an empty field is rejected before the signature
  is looked at, with "Missing payment verification details", and writes nothing.
\<close>

theorem verifyPayment_signature_rejection:
  "(razorpay_order_id body \<noteq> [] \<and> razorpay_payment_id body \<noteq> []
      \<and> razorpay_signature body \<noteq> [] \<and> verifyReq.orderId body \<noteq> []
      \<and> orders d (verifyReq.orderId body) = Some ord
      \<and> razorpay_signature body \<noteq>
          hmacSha256 env (keySecret env) (razorpay_order_id body @ ''|'' @ razorpay_payment_id body)
      \<longrightarrow> verifyPayment usr body env d =
            (Inl VerificationFailed,
             d\<lparr>payments := payments d @ [failedPayment usr body env ord]\<rparr>)
          \<and> orders (snd (verifyPayment usr body env d)) = orders d
          \<and> payment.paymentStatus (failedPayment usr body env ord) = ''failed''
          \<and> failureReason (failedPayment usr body env ord) = Some ''Invalid Signature'')
   \<and> (razorpay_order_id body = [] \<or> razorpay_payment_id body = []
      \<or> razorpay_signature body = [] \<or> verifyReq.orderId body = []
      \<longrightarrow> verifyPayment usr body env d =
            (Inl (AppError 400 ''Missing payment verification details''), d))"
  using verifyPayment_tampered [of body d ord env usr]
  by (auto simp: failedPayment_def) (simp_all add: verifyPayment_def)

theorem verifyPayment_signature_rejection_witness:
  "razorpay_signature forgedReq \<noteq>
      hmacSha256 (venv ''pm1'') (keySecret (venv ''pm1''))
        (razorpay_order_id forgedReq @ ''|'' @ razorpay_payment_id forgedReq)
   \<and> orders shop1 (verifyReq.orderId forgedReq) = Some order1
   \<and> verifyPayment alice forgedReq (venv ''pm1'') shop1 =
       (Inl VerificationFailed,
        shop1\<lparr>payments := [failedPayment alice forgedReq (venv ''pm1'') order1]\<rparr>)
   \<and> orders (snd (verifyPayment alice forgedReq (venv ''pm1'') shop1)) = orders shop1
   \<and> verifyPayment alice blankReq (venv ''pm1'') shop1 =
       (Inl (AppError 400 ''Missing payment verification details''), shop1)"
  using verifyPayment_signature_rejection [of forgedReq shop1 order1 "venv ''pm1''" alice]
    verifyPayment_signature_rejection [of blankReq shop1 order1 "venv ''pm1''" alice]
  by (simp add: forgedReq_def blankReq_def okReq_def venv_def demoHmac_def shop1_def)

theorem verifyPayment_signature_counterexample:
  "razorpay_signature blankReq \<noteq>
      hmacSha256 (venv ''pm1'') (keySecret (venv ''pm1''))
        (razorpay_order_id blankReq @ ''|'' @ razorpay_payment_id blankReq)
   \<and> orders shop1 (verifyReq.orderId blankReq) = Some order1
   \<and> fst (verifyPayment alice blankReq (venv ''pm1'') shop1) \<noteq> Inl VerificationFailed
   \<and> payments (snd (verifyPayment alice blankReq (venv ''pm1'') shop1)) = payments shop1"
  by (simp add: verifyPayment_def forgedReq_def blankReq_def okReq_def venv_def demoHmac_def
      shop1_def VerificationFailed_def)

lemma find_None_filter: "find P xs = None \<longleftrightarrow> filter P xs = []"
  by (induction xs) auto

lemma find_snoc:
  "find P (xs @ [x]) = (case find P xs of Some y \<Rightarrow> Some y | None \<Rightarrow> if P x then Some x else None)"
  by (induction xs) auto

lemma verifyPayment_first:
  assumes "validTuple body env" "orders d (verifyReq.orderId body) = Some ord"
    "ledgerEntries (razorpay_payment_id body) d = []"
  shows "verifyPayment usr body env d =
     (Inr (newPaymentId env),
      d\<lparr>payments := payments d @ [newPayment usr body env ord],
        orders := (orders d)(verifyReq.orderId body \<mapsto> verifiedOrder body env ord),
        outbox := (if confirmationSent (emailNotifications ord) then outbox d
                   else outbox d @ [confirmationMail body env])\<rparr>)"
proof -
  have "find (\<lambda>p. payment.transactionId p = Some (razorpay_payment_id body)) (payments d) = None"
    using assms(3) by (simp add: find_None_filter ledgerEntries_def)
  then show ?thesis
    using assms(1,2)
    by (simp add: verifyPayment_def validTuple_def Let_def verifiedOrder_def confirmationMail_def
        newPayment_def)
qed

lemma verifyPayment_again:
  assumes "validTuple body env" "orders d (verifyReq.orderId body) = Some ord"
    "find (\<lambda>p. payment.transactionId p = Some (razorpay_payment_id body)) (payments d) = Some pay"
  shows "verifyPayment usr body env d =
     (Inr (paymentDocId pay),
      d\<lparr>payments := payments d,
        orders := (orders d)(verifyReq.orderId body \<mapsto> verifiedOrder body env ord),
        outbox := (if confirmationSent (emailNotifications ord) then outbox d
                   else outbox d @ [confirmationMail body env])\<rparr>)"
  using assms
  by (simp add: verifyPayment_def validTuple_def Let_def verifiedOrder_def confirmationMail_def)

text \<open>
  C4. Two calls of \<open>verifyPayment\<close> with the same valid tuple, on an order with no ledger entry
  for the payment id and \<open>confirmationSent\<close> not set: the ledger holds exactly one entry for
  the payment id (the one the first call created) and the order's \<open>paymentStatus\<close> is
  \<open>completed\<close>; but \<open>confirmationSent\<close> is still not set, since \<open>verifyPayment\<close> only reads it, and
  the mail service was called twice, once by each call.
\<close>

theorem verifyPayment_twice:
  assumes "validTuple body env" "validTuple body env'"
    and "orders d (verifyReq.orderId body) = Some ord"
    and "ledgerEntries (razorpay_payment_id body) d = []"
    and "\<not> confirmationSent (emailNotifications ord)"
    and "d2 = snd (verifyPayment usr body env' (snd (verifyPayment usr body env d)))"
  shows "ledgerEntries (razorpay_payment_id body) d2 = [newPayment usr body env ord]
    \<and> map_option order.paymentStatus (orders d2 (verifyReq.orderId body)) = Some ''completed''
    \<and> map_option (\<lambda>x. confirmationSent (emailNotifications x)) (orders d2 (verifyReq.orderId body))
        = Some False
    \<and> outbox d2 = outbox d @ [confirmationMail body env, confirmationMail body env']"
proof -
  define d1 where "d1 = snd (verifyPayment usr body env d)"
  have d1: "d1 = d\<lparr>payments := payments d @ [newPayment usr body env ord],
        orders := (orders d)(verifyReq.orderId body \<mapsto> verifiedOrder body env ord),
        outbox := outbox d @ [confirmationMail body env]\<rparr>"
    unfolding d1_def using verifyPayment_first[OF assms(1,3,4), of usr] assms(5) by simp
  have f: "find (\<lambda>p. payment.transactionId p = Some (razorpay_payment_id body)) (payments d1)
      = Some (newPayment usr body env ord)"
    using assms(4)
    by (simp add: d1 find_snoc ledgerEntries_def find_None_filter[symmetric] newPayment_def)
  have o1: "orders d1 (verifyReq.orderId body) = Some (verifiedOrder body env ord)"
    by (simp add: d1)
  have n1: "\<not> confirmationSent (emailNotifications (verifiedOrder body env ord))"
    using assms(5) by (simp add: verifiedOrder_def)
  have d2: "d2 = d1\<lparr>payments := payments d1,
        orders := (orders d1)(verifyReq.orderId body \<mapsto>
                     verifiedOrder body env' (verifiedOrder body env ord)),
        outbox := outbox d1 @ [confirmationMail body env']\<rparr>"
    unfolding assms(6) d1_def[symmetric]
    using verifyPayment_again[OF assms(2) o1 f, of usr] n1 by simp
  show ?thesis
    using assms(4,5)
    by (simp add: d2 d1 ledgerEntries_def verifiedOrder_def newPayment_def)
qed

theorem verifyPayment_twice_witness:
  "validTuple okReq (venv ''pm1'') \<and> validTuple okReq (venv ''pm2'')
   \<and> orders shop1 (verifyReq.orderId okReq) = Some order1
   \<and> ledgerEntries (razorpay_payment_id okReq) shop1 = []
   \<and> \<not> confirmationSent (emailNotifications order1)
   \<and> outbox (snd (verifyPayment alice okReq (venv ''pm2'')
                 (snd (verifyPayment alice okReq (venv ''pm1'') shop1)))) =
       [\<lparr>template = ''paymentConfirmed'', mailOrder = ''o1'', delivered = True\<rparr>,
        \<lparr>template = ''paymentConfirmed'', mailOrder = ''o1'', delivered = True\<rparr>]
   \<and> ledgerEntries ''pay_7'' (snd (verifyPayment alice okReq (venv ''pm2'')
                 (snd (verifyPayment alice okReq (venv ''pm1'') shop1)))) =
       [newPayment alice okReq (venv ''pm1'') order1]"
proof -
  have h: "validTuple okReq (venv ''pm1'')" "validTuple okReq (venv ''pm2'')"
    "orders shop1 (verifyReq.orderId okReq) = Some order1"
    "ledgerEntries (razorpay_payment_id okReq) shop1 = []"
    "\<not> confirmationSent (emailNotifications order1)"
    by (simp_all add: validTuple_def okReq_def venv_def demoHmac_def shop1_def ledgerEntries_def
        order1_def)
  show ?thesis
    using h verifyPayment_twice [OF h refl, of alice]
    by (simp add: confirmationMail_def okReq_def venv_def shop1_def)
qed

section \<open>Order creation: coupons\<close>

lemma handleCoupon_schema:
  assumes "\<forall>c\<in>set cs. schemaCoupon c"
  shows "handleCoupon cCode userRole now sub cs = (Some 0, None, cs)"
proof -
  have "find (orderCouponFilter k now) cs = None" for k
    using assms by (auto simp: find_None_iff orderCouponFilter_def schemaCoupon_def)
  then show ?thesis by (simp add: handleCoupon_def)
qed

text \<open>
  C6. What \<open>createOrder\<close> does with a coupon code: its query asks for \<open>startDate\<close> and \<open>endDate\<close>,
  which no coupon written through \<open>couponSchema\<close> has, so on such coupons it finds nothing.
  Every order it returns then has \<open>couponDiscount = 0\<close> and no \<open>couponDetails\<close>, no coupon's
  \<open>usedCount\<close> changes, and \<open>totalAmount = round2 (subtotal + shippingCost)\<close>, whatever code the
  request names. The witness is a coupon that \<open>validateCoupon\<close> accepts for the same subtotal.
\<close>

theorem createOrder_ignores_stored_coupons:
  assumes "\<forall>c\<in>set (coupons d). schemaCoupon c"
    and "createOrder usr body env d = (Inr ord, d')"
  shows "couponDiscount ord = 0 \<and> couponDetails ord = None \<and> coupons d' = coupons d
    \<and> order.totalAmount ord = round2 (order.subtotal ord + order.shippingCost ord)"
  using assms(2) handleCoupon_schema[OF assms(1)]
  by (auto simp: createOrder_def Let_def split: if_splits prod.splits sum.splits option.splits)

lemma createOrder_coupon_example:
  "createOrder alice ((checkout [want 2])\<lparr>couponCode := Some ''save10''\<rparr>) env1 couponShop
     = (Inr order1, shop1\<lparr>coupons := [save10]\<rparr>)"
proof -
  have r: "round2 260 = 260" by code_simp
  have pi: "processItems ''user'' 2000 [want 2] [''p1'' \<mapsto> book] ([], 0, 0) =
      (Inr ([orderLine (want 2) book 80], 160, 100), [''p1'' \<mapsto> book\<lparr>product.stock := 8\<rparr>])"
    using round2_80
    by (simp add: want_def book_def getCurrentPrice_def finalPrice_def
        isDiscountActive_def getShippingCost_def deductStock_def truthy_def round2_def)
  have hc: "handleCoupon (Some ''save10'') ''user'' 2000 160 [save10] = (Some 0, None, [save10])"
    by (rule handleCoupon_schema) (simp add: schemaCoupon_def save10_def)
  show ?thesis
    unfolding createOrder_def
    apply (simp add: pi hc checkout_def alice_def env1_def shop_def couponShop_def
        Let_def del: processItems.simps)
    apply (simp add: r order1_def shop1_def orderLine_def want_def book_def productImage_def
        home_def)
    done
qed

theorem createOrder_ignores_stored_coupons_witness:
  "coupons couponShop = [save10] \<and> schemaCoupon save10
   \<and> validateCoupon 2000 (coupons couponShop)
        \<lparr>couponReq.code = ''save10'', cartTotal = 160, cartItems = []\<rparr>
       = Inr \<lparr>couponResponse.discountAmount = 16, couponCode = ''SAVE10'',
               couponResponse.couponId = ''c1''\<rparr>
   \<and> createOrder alice ((checkout [want 2])\<lparr>couponCode := Some ''save10''\<rparr>) env1 couponShop
       = (Inr order1, shop1\<lparr>coupons := [save10]\<rparr>)
   \<and> couponDiscount order1 = 0 \<and> couponDetails order1 = None
   \<and> order.totalAmount order1 = 260
   \<and> map usedCount (coupons (shop1\<lparr>coupons := [save10]\<rparr>)) = [0]"
proof -
  have s: "\<forall>c\<in>set (coupons couponShop). schemaCoupon c"
    by (simp add: couponShop_def schemaCoupon_def save10_def)
  have v: "validateCoupon 2000 (coupons couponShop)
        \<lparr>couponReq.code = ''save10'', cartTotal = 160, cartItems = []\<rparr>
       = Inr \<lparr>couponResponse.discountAmount = 16, couponCode = ''SAVE10'',
               couponResponse.couponId = ''c1''\<rparr>"
    by code_simp
  have u: "map usedCount (coupons (shop1\<lparr>coupons := [save10]\<rparr>)) = [0]"
    by (simp add: save10_def)
  have t: "order.totalAmount order1 = 260"
    by (simp add: order1_def)
  have c: "coupons couponShop = [save10]" "schemaCoupon save10"
    by (simp_all add: couponShop_def schemaCoupon_def save10_def)
  show ?thesis
    using c v u t createOrder_coupon_example
      createOrder_ignores_stored_coupons [OF s createOrder_coupon_example]
    by blast
qed


section \<open>Cancellation\<close>

lemma restoreItems_append:
  "restoreItems xs ps = (None, ps1) \<Longrightarrow> restoreItems (xs @ ys) ps = restoreItems ys ps1"
proof (induction xs arbitrary: ps)
  case Nil
  then show ?case by simp
next
  case (Cons x xs)
  show ?case
  proof (cases "ps (orderItem.product x)")
    case None
    with Cons.prems show ?thesis by simp
  next
    case (Some p)
    with Cons.prems
    have "restoreItems xs (ps(orderItem.product x \<mapsto> restoreStock x p)) = (None, ps1)"
      by simp
    then have "restoreItems (xs @ ys) (ps(orderItem.product x \<mapsto> restoreStock x p))
        = restoreItems ys ps1"
      by (rule Cons.IH)
    with Some show ?thesis by simp
  qed
qed

text \<open>
  C9. \<open>cancelOrder\<close> by the owner of an order that may be cancelled, one of whose items names
  a product that no longer exists: the order is saved as \<open>cancelled\<close> with its history entry,
  the items before that one have their stock restored, and the handler then stops with a
  \<open>TypeError\<close>; the stock of that item and of the items after it is not restored.
\<close>

theorem cancelOrder_deleted_product:
  assumes "orders d ident = Some ord" and "order.user ord = userId usr"
    and "order.status ord \<notin> set [''shipped'', ''delivered'', ''cancelled'', ''refunded'']"
    and "order.items ord = xs @ item # ys"
    and "restoreItems xs (products d) = (None, ps1)"
    and "ps1 (orderItem.product item) = None"
  shows "cancelOrder usr ident now d =
     (Inl (TypeError ''Cannot read properties of null (reading stock)''),
      d\<lparr>orders := (orders d)(ident \<mapsto> cancelled now ord), products := ps1\<rparr>)"
proof -
  have "restoreItems (xs @ item # ys) (products d) =
      (Some (TypeError ''Cannot read properties of null (reading stock)''), ps1)"
    using restoreItems_append[OF assms(5), of "item # ys"] assms(6) by simp
  then show ?thesis
    using assms(1-4) by (simp add: cancelOrder_def Let_def cancelled_def)
qed

theorem cancelOrder_deleted_product_witness:
  "orders goneShop ''o2'' = Some goneOrder \<and> order.user goneOrder = userId alice
   \<and> order.status goneOrder = ''pending''
   \<and> products goneShop ''gone'' = None
   \<and> cancelOrder alice ''o2'' 4000 goneShop =
       (Inl (TypeError ''Cannot read properties of null (reading stock)''),
        goneShop\<lparr>orders := (orders goneShop)(''o2'' \<mapsto> cancelled 4000 goneOrder),
          products := [''p1'' \<mapsto> book\<lparr>product.stock := 7\<rparr>]\<rparr>)"
proof -
  have h: "orders goneShop ''o2'' = Some goneOrder" "order.user goneOrder = userId alice"
    "order.status goneOrder \<notin> set [''shipped'', ''delivered'', ''cancelled'', ''refunded'']"
    "order.status goneOrder = ''pending''" "products goneShop ''gone'' = None"
    by (simp_all add: goneShop_def goneOrder_def order1_def alice_def shop1_def)
  have i: "order.items goneOrder = [hd (order.items goneOrder)] @
      (order.items goneOrder ! 1) # [order.items goneOrder ! 2]"
    by (simp add: goneOrder_def)
  have r: "restoreItems [hd (order.items goneOrder)] (products goneShop) =
      (None, [''p1'' \<mapsto> book\<lparr>product.stock := 7\<rparr>])"
    by (simp add: goneOrder_def goneShop_def shop1_def restoreStock_def truthy_def book_def)
  have g: "[''p1'' \<mapsto> book\<lparr>product.stock := 7\<rparr>] (orderItem.product (order.items goneOrder ! 1)) = None"
    by (simp add: goneOrder_def)
  show ?thesis
    using h(1,2,4,5) cancelOrder_deleted_product [OF h(1,2,3) i r g, of 4000]
    by blast
qed

section \<open>Coupon scope\<close>







section \<open>Cancellation restores stock\<close>

lemma updFirst_commute:
  assumes "\<And>v. P (g v) = P v" "\<And>v. Q (f v) = Q v" "\<And>v. f (g v) = g (f v)"
  shows "updFirst P f (updFirst Q g vs) = updFirst Q g (updFirst P f vs)"
  by (induction vs) (simp_all add: assms)

lemma updFirst_inverse:
  assumes "\<And>v. P (g v) = P v" "\<And>v. f (g v) = v"
  shows "updFirst P f (updFirst P g vs) = vs"
  by (induction vs) (simp_all add: assms)

lemma shiftVariants_commute:
  "shiftVariants k c (shiftVariants k' c' vs) = shiftVariants k' c' (shiftVariants k c vs)"
proof (cases "truthy c \<and> truthy c'")
  case True
  have "updFirst (\<lambda>v. Some (colorName v) = c) (\<lambda>v. v\<lparr>variant.stock := variant.stock v + k\<rparr>)
          (updFirst (\<lambda>v. Some (colorName v) = c') (\<lambda>v. v\<lparr>variant.stock := variant.stock v + k'\<rparr>) vs)
      = updFirst (\<lambda>v. Some (colorName v) = c') (\<lambda>v. v\<lparr>variant.stock := variant.stock v + k'\<rparr>)
          (updFirst (\<lambda>v. Some (colorName v) = c) (\<lambda>v. v\<lparr>variant.stock := variant.stock v + k\<rparr>) vs)"
    by (rule updFirst_commute) simp_all
  with True show ?thesis unfolding shiftVariants_def by (simp only: if_True)
next
  case False
  then show ?thesis unfolding shiftVariants_def by auto
qed

lemma shiftVariants_inverse: "shiftVariants k c (shiftVariants (- k) c vs) = vs"
proof (cases "truthy c")
  case True
  have "updFirst (\<lambda>v. Some (colorName v) = c) (\<lambda>v. v\<lparr>variant.stock := variant.stock v + k\<rparr>)
          (updFirst (\<lambda>v. Some (colorName v) = c) (\<lambda>v. v\<lparr>variant.stock := variant.stock v + - k\<rparr>) vs)
      = vs"
    by (rule updFirst_inverse) simp_all
  with True show ?thesis unfolding shiftVariants_def by (simp only: if_True)
next
  case False
  then show ?thesis unfolding shiftVariants_def by simp
qed

lemma shift_shift:
  "shift k c (shift k' c' p) =
     p\<lparr>product.stock := product.stock p + (k + k'),
       variants := shiftVariants k c (shiftVariants k' c' (variants p))\<rparr>"
  by (simp add: shift_def)

lemma shift_commute: "shift k c (shift k' c' p) = shift k' c' (shift k c p)"
proof -
  have e: "shiftVariants k c (shiftVariants k' c' (variants p))
      = shiftVariants k' c' (shiftVariants k c (variants p))"
    by (rule shiftVariants_commute)
  have a: "k + k' = k' + k" by simp
  show ?thesis
    unfolding shift_shift by (simp only: e a)
qed

lemma shift_inverse: "shift k c (shift (- k) c p) = p"
  unfolding shift_shift by (simp add: shiftVariants_inverse)

lemma shiftAt_commute: "shiftAt m (shiftAt n ps) = shiftAt n (shiftAt m ps)"
proof (cases "fst m = fst n")
  case True
  then show ?thesis
    by (cases "ps (fst n)") (simp_all add: shiftAt_def shift_commute)
next
  case False
  then show ?thesis
    by (cases "ps (fst n)"; cases "ps (fst m)") (auto simp: shiftAt_def fun_upd_twist)
qed

lemma shiftAt_shiftAll: "shiftAt m (shiftAll ns ps) = shiftAll ns (shiftAt m ps)"
proof (induction ns arbitrary: ps)
  case Nil
  show ?case by simp
next
  case (Cons n ns)
  show ?case by (simp add: Cons.IH shiftAt_commute)
qed

lemma shiftAt_inverse: "shiftAt m (shiftAt (negMove m) ps) = ps"
  by (cases "ps (fst m)") (simp_all add: shiftAt_def negMove_def shift_inverse map_upd_triv)

lemma shiftAll_inverse: "shiftAll ms (shiftAll (map negMove ms) ps) = ps"
proof (induction ms arbitrary: ps)
  case Nil
  show ?case by simp
next
  case (Cons m ms)
  have "shiftAll (m # ms) (shiftAll (map negMove (m # ms)) ps)
      = shiftAll ms (shiftAt m (shiftAll (map negMove ms) (shiftAt (negMove m) ps)))"
    by simp
  also have "\<dots> = shiftAll ms (shiftAll (map negMove ms) (shiftAt m (shiftAt (negMove m) ps)))"
    by (simp only: shiftAt_shiftAll)
  also have "\<dots> = ps"
    by (simp only: shiftAt_inverse Cons.IH)
  finally show ?case .
qed

lemma stock_shiftAt:
  "map_option product.stock (shiftAt m ps pid) =
   map_option (\<lambda>s. s + (if fst m = pid then fst (snd m) else 0)) (map_option product.stock (ps pid))"
  by (cases "ps (fst m)"; cases "ps pid") (auto simp: shiftAt_def shift_def)

lemma stock_shiftAll:
  "map_option product.stock (shiftAll ms ps pid) =
   map_option (\<lambda>s. s + moved pid ms) (map_option product.stock (ps pid))"
proof (induction ms arbitrary: ps)
  case Nil
  show ?case by (cases "ps pid") (simp_all add: moved_def)
next
  case (Cons m ms)
  show ?case
    by (cases "ps pid") (simp_all add: Cons.IH stock_shiftAt moved_def)
qed

lemma restoreStock_shift:
  "restoreStock l p = shift (orderItem.quantity l) (orderItem.selectedColor l) p"
  by (simp add: restoreStock_def shift_def shiftVariants_def)

lemma restoreItems_shiftAll:
  "\<forall>l\<in>set ls. orderItem.product l \<in> dom ps \<Longrightarrow>
   restoreItems ls ps = (None, shiftAll (map lineMove ls) ps)"
proof (induction ls arbitrary: ps)
  case Nil
  show ?case by simp
next
  case (Cons l ls)
  then obtain p where p: "ps (orderItem.product l) = Some p" by auto
  have s: "shiftAt (lineMove l) ps = ps(orderItem.product l \<mapsto> restoreStock l p)"
    by (simp add: shiftAt_def lineMove_def p restoreStock_shift)
  have ih: "restoreItems ls (ps(orderItem.product l \<mapsto> restoreStock l p))
      = (None, shiftAll (map lineMove ls) (ps(orderItem.product l \<mapsto> restoreStock l p)))"
    by (rule Cons.IH) (use Cons.prems in auto)
  have "restoreItems (l # ls) ps = restoreItems ls (ps(orderItem.product l \<mapsto> restoreStock l p))"
    by (simp add: p)
  also have "\<dots> = (None, shiftAll (map lineMove ls) (ps(orderItem.product l \<mapsto> restoreStock l p)))"
    by (rule ih)
  also have "\<dots> = (None, shiftAll (map lineMove (l # ls)) ps)"
    by (simp only: list.map shiftAll.simps s)
  finally show ?case .
qed


lemma processItems_Cons_ok:
  assumes "processItems r n (item # rest) ps (ls, a, b) = (Inr acc', ps')"
  obtains p where "ps (reqItem.product item) = Some p"
    and "\<not> product.stock p < reqItem.quantity item"
    and "processItems r n rest (ps(reqItem.product item \<mapsto> deductStock item p))
           (ls @ [orderLine item p (getCurrentPrice p r n)],
            a + getCurrentPrice p r n * of_int (reqItem.quantity item),
            b + getShippingCost p r * of_int (reqItem.quantity item)) = (Inr acc', ps')"
proof (cases "ps (reqItem.product item)")
  case None
  with assms show ?thesis by simp
next
  case (Some p)
  show ?thesis
  proof (cases "product.stock p < reqItem.quantity item")
    case True
    with assms Some show ?thesis by simp
  next
    case False
    with assms Some have "processItems r n rest (ps(reqItem.product item \<mapsto> deductStock item p))
           (ls @ [orderLine item p (getCurrentPrice p r n)],
            a + getCurrentPrice p r n * of_int (reqItem.quantity item),
            b + getShippingCost p r * of_int (reqItem.quantity item)) = (Inr acc', ps')"
      by (simp add: Let_def)
    with Some False show ?thesis by (rule that)
  qed
qed

lemma processItems_lines:
  "processItems r n its ps (ls, a, b) = (Inr (ls', a', b'), ps') \<Longrightarrow>
   map lineMove ls' = map lineMove ls @ map reqMove its"
proof (induction its arbitrary: ps ls a b)
  case Nil
  then show ?case by simp
next
  case (Cons item rest)
  from Cons.prems obtain p where
    "processItems r n rest (ps(reqItem.product item \<mapsto> deductStock item p))
           (ls @ [orderLine item p (getCurrentPrice p r n)],
            a + getCurrentPrice p r n * of_int (reqItem.quantity item),
            b + getShippingCost p r * of_int (reqItem.quantity item)) = (Inr (ls', a', b'), ps')"
    by (rule processItems_Cons_ok)
  from Cons.IH[OF this] show ?case
    by (simp add: lineMove_def reqMove_def orderLine_def)
qed

lemma processItems_dom:
  "processItems r n its ps (ls, a, b) = (Inr acc', ps') \<Longrightarrow>
   (\<forall>item\<in>set its. reqItem.product item \<in> dom ps)"
proof (induction its arbitrary: ps ls a b)
  case Nil
  then show ?case by simp
next
  case (Cons item rest)
  from Cons.prems obtain p where p: "ps (reqItem.product item) = Some p" and
    rest: "processItems r n rest (ps(reqItem.product item \<mapsto> deductStock item p))
           (ls @ [orderLine item p (getCurrentPrice p r n)],
            a + getCurrentPrice p r n * of_int (reqItem.quantity item),
            b + getShippingCost p r * of_int (reqItem.quantity item)) = (Inr acc', ps')"
    by (rule processItems_Cons_ok)
  from rest have ih: "\<forall>i\<in>set rest. reqItem.product i
      \<in> dom (ps(reqItem.product item \<mapsto> deductStock item p))"
    by (rule Cons.IH)
  have "dom (ps(reqItem.product item \<mapsto> deductStock item p)) = dom ps"
    using p by (simp add: insert_absorb domI)
  with ih have "\<forall>i\<in>set rest. reqItem.product i \<in> dom ps" by (simp only:)
  with p show ?case by auto
qed

lemma processItems_stock_moved:
  "processItems r n its ps (ls, a, b) = (Inr acc', ps') \<Longrightarrow>
   map_option product.stock (ps' pid) =
   map_option (\<lambda>s. s - moved pid (map reqMove its)) (map_option product.stock (ps pid))"
proof (induction its arbitrary: ps ls a b)
  case Nil
  then show ?case by (cases "ps pid") (simp_all add: moved_def)
next
  case (Cons item rest)
  from Cons.prems obtain p where p: "ps (reqItem.product item) = Some p" and
    "processItems r n rest (ps(reqItem.product item \<mapsto> deductStock item p))
           (ls @ [orderLine item p (getCurrentPrice p r n)],
            a + getCurrentPrice p r n * of_int (reqItem.quantity item),
            b + getShippingCost p r * of_int (reqItem.quantity item)) = (Inr acc', ps')"
    by (rule processItems_Cons_ok)
  from Cons.IH[OF this(2)] p show ?case
    by (cases "ps pid") (auto simp: moved_def reqMove_def deductStock_def)
qed

lemma updFirst_cong_find:
  "(\<And>v. find P vs = Some v \<Longrightarrow> f v = g v) \<Longrightarrow> updFirst P f vs = updFirst P g vs"
  by (induction vs) auto

lemma deductStock_shift:
  assumes "variantCovers item p"
  shows "deductStock item p = shift (- reqItem.quantity item) (reqItem.selectedColor item) p"
proof (cases "truthy (reqItem.selectedColor item)")
  case True
  have "updFirst (\<lambda>v. Some (colorName v) = reqItem.selectedColor item)
          (\<lambda>v. v\<lparr>variant.stock := max 0 (variant.stock v - reqItem.quantity item)\<rparr>) (variants p)
      = updFirst (\<lambda>v. Some (colorName v) = reqItem.selectedColor item)
          (\<lambda>v. v\<lparr>variant.stock := variant.stock v + - reqItem.quantity item\<rparr>) (variants p)"
  proof (rule updFirst_cong_find)
    fix v
    assume "find (\<lambda>v. Some (colorName v) = reqItem.selectedColor item) (variants p) = Some v"
    with assms True have "reqItem.quantity item \<le> variant.stock v"
      by (simp add: variantCovers_def)
    then show "v\<lparr>variant.stock := max 0 (variant.stock v - reqItem.quantity item)\<rparr>
        = v\<lparr>variant.stock := variant.stock v + - reqItem.quantity item\<rparr>"
      by (simp add: max_def)
  qed
  with True show ?thesis
    by (simp add: deductStock_def shift_def shiftVariants_def)
next
  case False
  then show ?thesis
    by (simp add: deductStock_def shift_def shiftVariants_def)
qed

lemma processItems_shiftAll:
  "processItems r n its ps (ls, a, b) = (Inr acc', ps') \<Longrightarrow> noFloor its ps \<Longrightarrow>
   ps' = shiftAll (map (\<lambda>item. negMove (reqMove item)) its) ps"
proof (induction its arbitrary: ps ls a b)
  case Nil
  then show ?case by simp
next
  case (Cons item rest)
  from Cons.prems(1) obtain p where p: "ps (reqItem.product item) = Some p" and
    rest: "processItems r n rest (ps(reqItem.product item \<mapsto> deductStock item p))
           (ls @ [orderLine item p (getCurrentPrice p r n)],
            a + getCurrentPrice p r n * of_int (reqItem.quantity item),
            b + getShippingCost p r * of_int (reqItem.quantity item)) = (Inr acc', ps')"
    by (rule processItems_Cons_ok)
  from Cons.prems(2) p have c: "variantCovers item p"
    and nf: "noFloor rest (ps(reqItem.product item \<mapsto> deductStock item p))"
    by simp_all
  have s: "shiftAt (negMove (reqMove item)) ps = ps(reqItem.product item \<mapsto> deductStock item p)"
    by (simp add: shiftAt_def negMove_def reqMove_def p deductStock_shift[OF c])
  have "ps' = shiftAll (map (\<lambda>item. negMove (reqMove item)) rest)
                (ps(reqItem.product item \<mapsto> deductStock item p))"
    using rest nf by (rule Cons.IH)
  then show ?case by (simp only: list.map shiftAll.simps s)
qed

lemma createOrder_ok:
  assumes "createOrder usr body env d = (Inr ord, d1)"
  obtains sub ship where
    "processItems (role usr) (orderNow env) (orderReq.items body) (products d) ([], 0, 0)
       = (Inr (order.items ord, sub, ship), products d1)"
proof -
  obtain res ps where pi: "processItems (role usr) (orderNow env) (orderReq.items body)
      (products d) ([], 0, 0) = (res, ps)"
    by (cases "processItems (role usr) (orderNow env) (orderReq.items body) (products d) ([], 0, 0)")
  from assms pi obtain ls sub ship where r: "res = Inr (ls, sub, ship)"
    by (cases res) (auto simp: createOrder_def split: if_splits)
  obtain disc details cs where hc: "handleCoupon (couponCode body) (role usr) (orderNow env) sub
      (coupons d) = (disc, details, cs)"
    by (cases "handleCoupon (couponCode body) (role usr) (orderNow env) sub (coupons d)")
  from assms pi r hc have "order.items ord = ls \<and> products d1 = ps"
    by (cases disc) (auto simp: createOrder_def Let_def split: if_splits)
  with pi r that show ?thesis by simp
qed

lemma cancelOrder_after_createOrder:
  assumes co: "createOrder usr body env d = (Inr ord, d1)"
    and o2: "orders d2 ident = Some ord2" and its: "order.items ord2 = order.items ord"
    and own: "order.user ord2 = userId usr2"
    and st: "order.status ord2 \<notin> set [''shipped'', ''delivered'', ''cancelled'', ''refunded'']"
    and same: "products d2 = products d1"
  shows "cancelOrder usr2 ident now d2 =
      (Inr (cancelled now ord2),
       d2\<lparr>orders := (orders d2)(ident \<mapsto> cancelled now ord2),
          products := shiftAll (map reqMove (orderReq.items body)) (products d1)\<rparr>)"
    and "map_option product.stock
           (shiftAll (map reqMove (orderReq.items body)) (products d1) pid)
         = map_option product.stock (products d pid)"
    and "noFloor (orderReq.items body) (products d) \<Longrightarrow>
         shiftAll (map reqMove (orderReq.items body)) (products d1) = products d"
proof -
  from co obtain sub ship where pi:
    "processItems (role usr) (orderNow env) (orderReq.items body) (products d) ([], 0, 0)
       = (Inr (order.items ord, sub, ship), products d1)"
    by (rule createOrder_ok)
  have lines: "map lineMove (order.items ord) = map reqMove (orderReq.items body)"
    using processItems_lines[OF pi] by simp
  have stk: "map_option product.stock (products d1 q) =
      map_option (\<lambda>s. s - moved q (map reqMove (orderReq.items body)))
        (map_option product.stock (products d q))" for q
    by (rule processItems_stock_moved[OF pi])
  have dom1: "q \<in> dom (products d) \<Longrightarrow> q \<in> dom (products d1)" for q
    using stk[of q] by (cases "products d1 q") auto
  have "\<forall>item\<in>set (orderReq.items body). reqItem.product item \<in> dom (products d1)"
    using processItems_dom[OF pi] dom1 by blast
  then have "\<forall>m\<in>set (map reqMove (orderReq.items body)). fst m \<in> dom (products d1)"
    by (simp add: reqMove_def)
  then have "\<forall>m\<in>set (map lineMove (order.items ord)). fst m \<in> dom (products d1)"
    by (simp only: lines)
  then have "\<forall>l\<in>set (order.items ord). orderItem.product l \<in> dom (products d1)"
    by (simp add: lineMove_def)
  then have "restoreItems (order.items ord) (products d1)
      = (None, shiftAll (map lineMove (order.items ord)) (products d1))"
    by (rule restoreItems_shiftAll)
  then have ri: "restoreItems (order.items ord2) (products d2)
      = (None, shiftAll (map reqMove (orderReq.items body)) (products d1))"
    by (simp only: lines its same)
  have ci: "order.items (cancelled now ord2) = order.items ord2"
    by (simp add: cancelled_def)
  show "cancelOrder usr2 ident now d2 =
      (Inr (cancelled now ord2),
       d2\<lparr>orders := (orders d2)(ident \<mapsto> cancelled now ord2),
          products := shiftAll (map reqMove (orderReq.items body)) (products d1)\<rparr>)"
    using o2 own st ri ci
    unfolding cancelOrder_def cancelled_def[symmetric] by (simp add: Let_def)
  show "map_option product.stock
           (shiftAll (map reqMove (orderReq.items body)) (products d1) pid)
         = map_option product.stock (products d pid)"
    by (cases "products d pid") (simp_all add: stock_shiftAll stk)
  show "shiftAll (map reqMove (orderReq.items body)) (products d1) = products d"
    if "noFloor (orderReq.items body) (products d)"
  proof -
    have "products d1 = shiftAll (map negMove (map reqMove (orderReq.items body))) (products d)"
      using processItems_shiftAll[OF pi that] by (simp add: o_def)
    then show ?thesis by (simp only: shiftAll_inverse)
  qed
qed


text \<open>
  C7 (as amended). Take an order that \<open>createOrder\<close> returned, stored under some id with the
  same items, not yet shipped, delivered, cancelled or refunded, the product store being as
  \<open>createOrder\<close> left it. When its owner cancels it, the call succeeds, the order is stored as
  \<open>cancelled\<close>, and every product's \<open>stock\<close> is what it was before the order was created. When
  no variant deduction was cut off at 0 (every selected variant held at least the ordered
  quantity), the whole product store, variant stocks included, is what it was before the
  order was created. Cancelling, as its owner, an order whose status is \<open>shipped\<close>,
  \<open>delivered\<close>, \<open>cancelled\<close> or \<open>refunded\<close> fails with "Order cannot be cancelled" and changes
  nothing.
\<close>

theorem cancelOrder_restores_stock:
  "(createOrder usr body env d = (Inr ord, d1)
      \<and> orders d2 ident = Some ord2 \<and> order.items ord2 = order.items ord
      \<and> order.user ord2 = userId usr2
      \<and> order.status ord2 \<notin> set [''shipped'', ''delivered'', ''cancelled'', ''refunded'']
      \<and> products d2 = products d1
      \<longrightarrow> fst (cancelOrder usr2 ident now d2) = Inr (cancelled now ord2)
        \<and> orders (snd (cancelOrder usr2 ident now d2)) ident = Some (cancelled now ord2)
        \<and> (\<forall>pid. map_option product.stock (products (snd (cancelOrder usr2 ident now d2)) pid)
                   = map_option product.stock (products d pid))
        \<and> (noFloor (orderReq.items body) (products d)
             \<longrightarrow> products (snd (cancelOrder usr2 ident now d2)) = products d))
   \<and> (orders d0 ident0 = Some ord0 \<and> order.user ord0 = userId usr0
      \<and> order.status ord0 \<in> set [''shipped'', ''delivered'', ''cancelled'', ''refunded'']
      \<longrightarrow> cancelOrder usr0 ident0 now0 d0 = (Inl InvalidTransition, d0))"
proof (intro conjI impI)
  assume a: "createOrder usr body env d = (Inr ord, d1)
      \<and> orders d2 ident = Some ord2 \<and> order.items ord2 = order.items ord
      \<and> order.user ord2 = userId usr2
      \<and> order.status ord2 \<notin> set [''shipped'', ''delivered'', ''cancelled'', ''refunded'']
      \<and> products d2 = products d1"
  then have c: "cancelOrder usr2 ident now d2 =
      (Inr (cancelled now ord2),
       d2\<lparr>orders := (orders d2)(ident \<mapsto> cancelled now ord2),
          products := shiftAll (map reqMove (orderReq.items body)) (products d1)\<rparr>)"
    using cancelOrder_after_createOrder(1)[of usr body env d ord d1 d2 ident ord2 usr2 now] by simp
  show "fst (cancelOrder usr2 ident now d2) = Inr (cancelled now ord2)"
    by (simp add: c)
  show "orders (snd (cancelOrder usr2 ident now d2)) ident = Some (cancelled now ord2)"
    by (simp add: c)
  show "\<forall>pid. map_option product.stock (products (snd (cancelOrder usr2 ident now d2)) pid)
                   = map_option product.stock (products d pid)"
    using a cancelOrder_after_createOrder(2)[of usr body env d ord d1 d2 ident ord2 usr2]
    by (simp add: c)
  show "products (snd (cancelOrder usr2 ident now d2)) = products d"
    if "noFloor (orderReq.items body) (products d)"
    using a that cancelOrder_after_createOrder(3)[of usr body env d ord d1 d2 ident ord2 usr2]
    by (simp add: c)
next
  assume "orders d0 ident0 = Some ord0 \<and> order.user ord0 = userId usr0
      \<and> order.status ord0 \<in> set [''shipped'', ''delivered'', ''cancelled'', ''refunded'']"
  then show "cancelOrder usr0 ident0 now0 d0 = (Inl InvalidTransition, d0)"
    by (simp add: cancelOrder_def InvalidTransition_def)
qed

lemma createOrder_red_example:
  "createOrder alice (checkout [wantRed 2]) env1 shop = (Inr redOrder, redShop)"
proof -
  have r: "round2 260 = 260" by code_simp
  have pi: "processItems ''user'' 2000 [wantRed 2] [''p1'' \<mapsto> book] ([], 0, 0) =
      (Inr ([orderLine (wantRed 2) book 80], 160, 100),
       [''p1'' \<mapsto> book\<lparr>product.stock := 8,
          variants := [\<lparr>colorName = ''Red'', size_v = ''M'', variant.stock = 0\<rparr>]\<rparr>])"
    using round2_80
    by (simp add: wantRed_def want_def book_def getCurrentPrice_def finalPrice_def
        isDiscountActive_def getShippingCost_def deductStock_def truthy_def round2_def)
  show ?thesis
    unfolding createOrder_def
    apply (simp add: pi checkout_def alice_def env1_def shop_def handleCoupon_def truthy_def
        Let_def del: processItems.simps)
    apply (simp add: r redOrder_def order1_def redShop_def shop_def orderLine_def wantRed_def
        want_def book_def productImage_def home_def)
    done
qed

theorem cancelOrder_restores_stock_witness:
  "createOrder alice (checkout [wantRed 2]) env1 shop = (Inr redOrder, redShop)
   \<and> noFloor [wantRed 2] (products shop)
   \<and> map_option (\<lambda>p. map variant.stock (variants p)) (products redShop ''p1'') = Some [0]
   \<and> fst (cancelOrder alice ''o1'' 4000 redShop) = Inr (cancelled 4000 redOrder)
   \<and> products (snd (cancelOrder alice ''o1'' 4000 redShop)) = products shop
   \<and> cancelOrder alice ''o1'' 5000
        (redShop\<lparr>orders := [''o1'' \<mapsto> cancelled 4000 redOrder]\<rparr>) =
       (Inl InvalidTransition, redShop\<lparr>orders := [''o1'' \<mapsto> cancelled 4000 redOrder]\<rparr>)"
proof -
  have h: "orders redShop ''o1'' = Some redOrder" "order.items redOrder = order.items redOrder"
    "order.user redOrder = userId alice"
    "order.status redOrder \<notin> set [''shipped'', ''delivered'', ''cancelled'', ''refunded'']"
    "products redShop = products redShop"
    by (simp_all add: redShop_def redOrder_def order1_def alice_def)
  have nf: "noFloor (orderReq.items (checkout [wantRed 2])) (products shop)"
    by (simp add: checkout_def shop_def variantCovers_def wantRed_def want_def truthy_def book_def)
  have v: "map_option (\<lambda>p. map variant.stock (variants p)) (products redShop ''p1'') = Some [0]"
    by (simp add: redShop_def)
  have g: "orders (redShop\<lparr>orders := [''o1'' \<mapsto> cancelled 4000 redOrder]\<rparr>) ''o1''
        = Some (cancelled 4000 redOrder)"
    "order.user (cancelled 4000 redOrder) = userId alice"
    "order.status (cancelled 4000 redOrder)
        \<in> set [''shipped'', ''delivered'', ''cancelled'', ''refunded'']"
    by (simp_all add: cancelled_def redOrder_def order1_def alice_def)
  show ?thesis
    using createOrder_red_example h nf v g
      cancelOrder_restores_stock [of alice "checkout [wantRed 2]" env1 shop redOrder redShop
        redShop "''o1''" redOrder alice 4000
        "redShop\<lparr>orders := [''o1'' \<mapsto> cancelled 4000 redOrder]\<rparr>" "''o1''"
        "cancelled 4000 redOrder" alice 5000]
    by (simp add: checkout_def)
qed

theorem cancelOrder_variant_counterexample:
  "map_option (\<lambda>p. map variant.stock (variants p)) (products shop ''p1'') = Some [2]
   \<and> \<not> isl (fst (createOrder alice (checkout [wantRed 3]) env1 shop))
   \<and> map_option (\<lambda>p. map variant.stock (variants p))
        (products (snd (createOrder alice (checkout [wantRed 3]) env1 shop)) ''p1'') = Some [0]
   \<and> \<not> isl (fst (cancelOrder alice ''o1'' 4000
              (snd (createOrder alice (checkout [wantRed 3]) env1 shop))))
   \<and> map_option (\<lambda>p. map variant.stock (variants p))
        (products (snd (cancelOrder alice ''o1'' 4000
              (snd (createOrder alice (checkout [wantRed 3]) env1 shop)))) ''p1'') = Some [3]"
  by code_simp

end
